theory Spec2Isabelle
  imports Main "HOL-Library.Word" "HOL-Library.Sublist"
begin

unbundle bit_operations_syntax

section \<open>gohttp: a shallow embedding of the request and TLS diagnostic engine\<close>

text \<open>
  The program is the Go command \<^verbatim>\<open>gohttp\<close>. The embedded version is the most recent
  one in the sources: \<^verbatim>\<open>doFlags\<close> of \<^verbatim>\<open>src/options.go\<close> lines 264-420 (the variant
  with \<^verbatim>\<open>headers\<close> and \<^verbatim>\<open>bodyonly\<close>), the main file \<^verbatim>\<open>src/unnamed/part_001\<close>
  that uses exactly these options, and \<^verbatim>\<open>src/tls.go\<close>. The other texts in the
  sources (\<^verbatim>\<open>part_000\<close>, \<^verbatim>\<open>part_002\<close> and the three other variants of
  \<^verbatim>\<open>doFlags\<close> in \<^verbatim>\<open>src/options.go\<close>) are earlier versions of the same two
  files.

  Everything the Go code obtains from its libraries or from the outside world is an
  explicit input of the model: the command line as \<^verbatim>\<open>flag.Parse\<close> read it, and an
  environment \<open>Env\<close> of oracles for URL parsing, name resolution, the file system and the
  network. Output and input/output actions are recorded as a list of events, in program
  order; a call that ends the process (\<^verbatim>\<open>os.Exit\<close>, \<^verbatim>\<open>log.Fatal\<close>, a run-time
  panic) is a value of type \<open>failure\<close>.
\<close>

subsection \<open>Go values\<close>

type_synonym byte = "8 word"

text \<open>An \<^verbatim>\<open>error\<close> value is represented by its message.\<close>
type_synonym error = string

text \<open>\<^verbatim>\<open>net.IP\<close> is a byte slice.\<close>
type_synonym IP = "byte list"

datatype panic = IndexOutOfRange nat nat | NilDereference

datatype failure =
    OsExit nat
  | LogFatal error
  | Panic panic

text \<open>Indexing a slice: Go panics when the index is out of range.\<close>
definition index :: "'a list \<Rightarrow> nat \<Rightarrow> failure + 'a" where
  "index xs i =
     (if i < length xs then Inr (xs ! i)
      else Inl (Panic (IndexOutOfRange i (length xs))))"

text \<open>
  \<^verbatim>\<open>strings.SplitN(s, ":", 2)\<close>: the text before the first colon and the text after
  it, or the one-element slice \<open>[s]\<close> when \<open>s\<close> has no colon.
\<close>
definition SplitN2 :: "string \<Rightarrow> string list" where
  "SplitN2 s =
     (if CHR '':'' \<in> set s
      then [takeWhile (\<lambda>c. c \<noteq> CHR '':'') s, tl (dropWhile (\<lambda>c. c \<noteq> CHR '':'') s)]
      else [s])"

text \<open>\<^verbatim>\<open>strings.Join(elems, sep)\<close>.\<close>
fun Join :: "string list \<Rightarrow> string \<Rightarrow> string" where
  "Join [] sep = ''''"
| "Join [x] sep = x"
| "Join (x # y # ys) sep = x @ sep @ Join (y # ys) sep"

text \<open>\<^verbatim>\<open>strings.Contains(s, ":")\<close>.\<close>
definition ContainsColon :: "string \<Rightarrow> bool" where
  "ContainsColon s = (CHR '':'' \<in> set s)"

text \<open>
  \<^verbatim>\<open>net.IP.To4\<close>: the 4-byte form of an address, \<open>None\<close> for Go's \<^verbatim>\<open>nil\<close>. A
  4-byte slice is its own 4-byte form; a 16-byte slice has one when it is an
  IPv4-mapped address (ten zero bytes, then \<open>0xff 0xff\<close>).
\<close>
definition To4 :: "IP \<Rightarrow> IP option" where
  "To4 ip =
     (if length ip = 4 then Some ip
      else if length ip = 16 \<and> (\<forall>b \<in> set (take 10 ip). b = 0) \<and> ip ! 10 = 0xff \<and> ip ! 11 = 0xff
      then Some (drop 12 ip)
      else None)"

subsection \<open>Options (\<^verbatim>\<open>src/options.go\<close>, lines 264-420)\<close>

record Options =
  ipv6only :: bool
  ipv4only :: bool
  timeout :: int
  retries :: int
  printbody :: bool
  bodyonly :: bool
  queryall :: bool
  sni :: string
  headers :: "string list"
  cacert :: string
  clientcert :: string
  clientkey :: string
  username :: string
  password :: string
  showcert :: bool
  showcertchain :: bool
  noredirect :: bool
  noverify :: bool
  useragent :: string

definition defaultTimeout :: int where
  "defaultTimeout = 5 * 1000000000"

definition defaultRetries :: int where
  "defaultRetries = 0"

definition defaultAgent :: string where
  "defaultAgent = ''gohttp''"

text \<open>
  The command line as \<^verbatim>\<open>flag.Parse()\<close> read it: the value of every registered flag
  (its default when the flag is absent) and the remaining positional arguments
  \<^verbatim>\<open>flag.Args()\<close>.
\<close>
record Cmdline =
  fl_h :: bool
  fl_6 :: bool
  fl_4 :: bool
  fl_t :: int
  fl_printbody :: bool
  fl_bodyonly :: bool
  fl_queryall :: bool
  fl_noredirect :: bool
  fl_sni :: string
  fl_header :: "string list"
  fl_cacert :: string
  fl_clientcert :: string
  fl_clientkey :: string
  fl_authbasic :: string
  fl_showcert :: bool
  fl_showcertchain :: bool
  fl_noverify :: bool
  fl_args :: "string list"

text \<open>
  The global \<^verbatim>\<open>options\<close> after \<^verbatim>\<open>flag.Parse()\<close>: the flag variables registered at
  lines 346-361 hold the flags' values, the other fields their initial values.
\<close>
definition flag_Parse :: "Cmdline \<Rightarrow> Options" where
  "flag_Parse c =
     \<lparr> ipv6only = fl_6 c,
       ipv4only = fl_4 c,
       timeout = fl_t c,
       retries = defaultRetries,
       printbody = fl_printbody c,
       bodyonly = fl_bodyonly c,
       queryall = fl_queryall c,
       sni = fl_sni c,
       headers = fl_header c,
       cacert = fl_cacert c,
       clientcert = fl_clientcert c,
       clientkey = fl_clientkey c,
       username = '''',
       password = '''',
       showcert = fl_showcert c,
       showcertchain = fl_showcertchain c,
       noredirect = fl_noredirect c,
       noverify = fl_noverify c,
       useragent = defaultAgent \<rparr>"

subsection \<open>HTTP and TLS data\<close>

text \<open>
  \<^verbatim>\<open>http.Header\<close> is a map from a key to the list of its values. It is kept as an
  association list with one entry per key; for a response, the order of the entries
  is the order in which \<^verbatim>\<open>range\<close> visits the map.
\<close>
type_synonym Header = "(string \<times> string list) list"

text \<open>\<^verbatim>\<open>Header.Add(key, value)\<close> on an already canonical key.\<close>
fun header_Add :: "string \<Rightarrow> string \<Rightarrow> Header \<Rightarrow> Header" where
  "header_Add k v [] = [(k, [v])]"
| "header_Add k v ((k', vs) # h) =
     (if k' = k then (k', vs @ [v]) # h else (k', vs) # header_Add k v h)"

text \<open>\<^verbatim>\<open>Header.Set(key, value)\<close> on an already canonical key.\<close>
fun header_Set :: "string \<Rightarrow> string \<Rightarrow> Header \<Rightarrow> Header" where
  "header_Set k v [] = [(k, [v])]"
| "header_Set k v ((k', vs) # h) =
     (if k' = k then (k', [v]) # h else (k', vs) # header_Set k v h)"

text \<open>A GET request without a body: its URL and its header.\<close>
record Request =
  req_URL :: string
  req_Header :: Header

text \<open>
  \<^verbatim>\<open>x509.CertPool\<close>: a pool is represented by the PEM inputs appended to it;
  \<^verbatim>\<open>tls.Certificate\<close>: client credentials, by the contents of the two files.
\<close>
type_synonym CertPool = "byte list list"

datatype Certificate = X509KeyPair "byte list" "byte list"

text \<open>\<^verbatim>\<open>tls.Config\<close>, the fields the program sets; \<open>RootCAs = None\<close> is Go's \<^verbatim>\<open>nil\<close>.\<close>
record TLSConfig =
  ServerName :: string
  InsecureSkipVerify :: bool
  RootCAs :: "CertPool option"
  Certificates :: "Certificate list"

text \<open>
  The \<^verbatim>\<open>DialContext\<close> closure of \<open>getClient\<close>: it ignores the address it is called
  with and dials the captured \<^verbatim>\<open>address\<close> with the captured timeout.
\<close>
datatype DialFunc = DialFixed string int

record Transport =
  TLSClientConfig :: TLSConfig
  ForceAttemptHTTP2 :: bool
  DialContext :: "DialFunc option"

text \<open>
  \<^verbatim>\<open>http.Client\<close>; \<open>CheckRedirect = True\<close> stands for the function that returns
  \<^verbatim>\<open>http.ErrUseLastResponse\<close>, \<open>False\<close> for \<^verbatim>\<open>nil\<close> (the default policy).
\<close>
record Client =
  client_Timeout :: int
  client_Transport :: Transport
  CheckRedirect :: bool

datatype PublicKey =
    RSAPublicKey nat
  | ECDSAPublicKey nat nat
  | Ed25519PublicKey
  | OtherPublicKey

text \<open>
  \<^verbatim>\<open>x509.Certificate\<close>, the fields \<open>printCertDetails\<close> reads. Names, algorithms and
  times are represented by their printed form; \<open>RSAPublicKey n\<close> is a
  \<^verbatim>\<open>*rsa.PublicKey\<close> whose \<^verbatim>\<open>Size()\<close> is \<open>n\<close>, \<open>ECDSAPublicKey x y\<close> a
  \<^verbatim>\<open>*ecdsa.PublicKey\<close> with the bit lengths of its two coordinates,
  \<open>Ed25519PublicKey\<close> a \<^verbatim>\<open>*ed25519.PublicKey\<close>.
\<close>
record X509 =
  Version :: int
  SerialNumber :: int
  Subject :: string
  Issuer :: string
  DNSNames :: "string list"
  IPAddresses :: "IP list"
  EmailAddresses :: "string list"
  URIs :: "string list"
  SignatureAlgorithm :: string
  PublicKeyAlgorithm :: string
  PublicKey :: PublicKey
  NotBefore :: string
  NotAfter :: string
  KeyUsage :: int
  ExtKeyUsage :: "int list"
  BasicConstraintsValid :: bool
  IsCA :: bool
  SubjectKeyId :: "byte list"
  AuthorityKeyId :: "byte list"
  OCSPServer :: "string list"
  IssuingCertificateURL :: "string list"
  CRLDistributionPoints :: "string list"
  PolicyIdentifiers :: "int list list"

text \<open>\<^verbatim>\<open>tls.ConnectionState\<close>.\<close>
record ConnectionState =
  conn_Version :: "16 word"
  DidResume :: bool
  CipherSuite :: "16 word"
  NegotiatedProtocol :: string
  conn_ServerName :: string
  PeerCertificates :: "X509 list"
  VerifiedChains :: "X509 list list"

text \<open>
  The body of a response as a stream: what \<^verbatim>\<open>ioutil.ReadAll\<close> will return for it
  (the bytes read, and the error if the read fails part way), and how long the read
  takes, in nanoseconds. The body of a response that \<^verbatim>\<open>client.Do\<close> returns is
  never \<^verbatim>\<open>nil\<close>.
\<close>
record ReadCloser =
  content :: "byte list"
  readerr :: "error option"
  readtime :: nat

text \<open>\<^verbatim>\<open>http.Response\<close>; \<open>TLS = None\<close> is Go's \<^verbatim>\<open>nil\<close> (a plaintext exchange).\<close>
record Response =
  StatusCode :: int
  Proto :: string
  ProtoMajor :: int
  ProtoMinor :: int
  ContentLength :: int
  Close :: bool
  Uncompressed :: bool
  Header :: Header
  Body :: ReadCloser
  TLS :: "ConnectionState option"

text \<open>
  The \<^verbatim>\<open>Result\<close> structure (\<^verbatim>\<open>part_001\<close>, lines 31-36); a \<^verbatim>\<open>nil\<close> pointer or
  error is \<open>None\<close>.
\<close>
record Result =
  response :: "Response option"
  body :: "byte list"
  responsetime :: int
  err :: "error option"

text \<open>\<^verbatim>\<open>new(Result)\<close>: every field has its zero value.\<close>
definition new_Result :: Result where
  "new_Result = \<lparr> response = None, body = [], responsetime = 0, err = None \<rparr>"

subsection \<open>Events\<close>

text \<open>
  The arguments of a print call are Go values; how \<^verbatim>\<open>fmt\<close> renders them is not part
  of the program. \<open>GStatusText c\<close> is the string \<^verbatim>\<open>http.StatusText(c)\<close> and
  \<open>GCipherSuiteName c\<close> the string \<^verbatim>\<open>tls.CipherSuiteName(c)\<close>.
\<close>
datatype gval =
    GString string
  | GInt int
  | GBool bool
  | GBytes "byte list"
  | GError error
  | GIP IP
  | GDuration int
  | GStrings "string list"
  | GOIDs "int list list"
  | GStatusText int
  | GCipherSuiteName "16 word"

datatype event =
    Println "gval list"
  | Printf string "gval list"
  | FprintfStderr string "gval list"
  | Usage
  | LookupIP string
  | ReadFile string
  | LoadX509KeyPair string string
  | ClientDo Client Request
  | ReadAll
  | BodyClose

text \<open>The events that reach the network: name resolution and the HTTP exchange.\<close>
fun is_network :: "event \<Rightarrow> bool" where
  "is_network (LookupIP h) = True"
| "is_network (ClientDo c r) = True"
| "is_network ReadAll = True"
| "is_network e = False"

text \<open>A request attempt is one call of \<^verbatim>\<open>client.Do\<close>.\<close>
fun is_attempt :: "event \<Rightarrow> bool" where
  "is_attempt (ClientDo c r) = True"
| "is_attempt e = False"

text \<open>
  Sequencing of two steps of a computation that prints and may end the process: the
  second step runs only when the first returned.
\<close>
definition andThen ::
  "event list \<times> (failure + 'a) \<Rightarrow> ('a \<Rightarrow> event list \<times> (failure + 'b)) \<Rightarrow> event list \<times> (failure + 'b)"
where
  "andThen m k =
     (case m of
        (es, Inl f) \<Rightarrow> (es, Inl f)
      | (es, Inr a) \<Rightarrow> (case k a of (es', r) \<Rightarrow> (es @ es', r)))"

subsection \<open>The environment\<close>

record URL =
  Scheme :: string
  Hostname :: string
  Port :: string

text \<open>
  The library calls whose results the program does not determine. \<open>client_Do env k c r\<close>
  is the outcome of the \<open>k\<close>-th call of \<^verbatim>\<open>client.Do\<close> of the run, made on client \<open>c\<close>
  with request \<open>r\<close>: the error or the response, and the time the call took in
  nanoseconds. \<open>http_NewRequest\<close> gives the error of \<^verbatim>\<open>http.NewRequest\<close> for a URL
  string, \<open>basicAuth\<close> the value \<^verbatim>\<open>SetBasicAuth\<close> stores under \<^verbatim>\<open>Authorization\<close>, and
  \<open>canonicalKey\<close> is \<^verbatim>\<open>textproto.CanonicalMIMEHeaderKey\<close>.

  \<^verbatim>\<open>range\<close> over a Go map visits the entries in an order that the run-time system
  chooses anew for every loop. \<open>range_KeyUsage env k i\<close> is the order in which the loop
  of \<open>KU2Strings\<close> visits the entries of the \<^verbatim>\<open>KeyUsage\<close> map when the certificate at
  depth \<open>i\<close> is printed in the report of the \<open>k\<close>-th exchange; each loop of a run has
  its own \<open>k\<close> and \<open>i\<close>. The run-time system visits every entry once, so the list is a
  permutation of the map's entries; no property below depends on that.
\<close>
record Env =
  url_Parse :: "string \<Rightarrow> error + URL"
  http_NewRequest :: "string \<Rightarrow> error option"
  net_LookupIP :: "string \<Rightarrow> error + IP list"
  ip_String :: "IP \<Rightarrow> string"
  ioutil_ReadFile :: "string \<Rightarrow> error + byte list"
  tls_LoadX509KeyPair :: "string \<Rightarrow> string \<Rightarrow> error + Certificate"
  basicAuth :: "string \<Rightarrow> string \<Rightarrow> string"
  canonicalKey :: "string \<Rightarrow> string"
  client_Do :: "nat \<Rightarrow> Client \<Rightarrow> Request \<Rightarrow> (error + Response) \<times> nat"
  range_KeyUsage :: "nat \<Rightarrow> nat \<Rightarrow> (int \<times> string) list"

text \<open>
  The part of the world a run changes: the monotonic clock, in nanoseconds, and the
  number of \<^verbatim>\<open>client.Do\<close> calls made so far.
\<close>
record World =
  clock :: nat
  ndo :: nat

subsection \<open>\<^verbatim>\<open>doFlags\<close> (\<^verbatim>\<open>src/options.go\<close>, lines 341-420)\<close>

text \<open>Lines 391-395: the \<^verbatim>\<open>-authbasic\<close> credentials are split at the first colon.\<close>
definition splitAuthbasic :: "string \<Rightarrow> Options \<Rightarrow> failure + Options" where
  "splitAuthbasic authbasic options =
     (if authbasic \<noteq> '''' then
        (let tmp = SplitN2 authbasic in
         case index tmp 0 of
           Inl f \<Rightarrow> Inl f
         | Inr u \<Rightarrow>
             (case index tmp 1 of
                Inl f \<Rightarrow> Inl f
              | Inr p \<Rightarrow> Inr (options\<lparr>username := u, password := p\<rparr>)))
      else Inr options)"

definition doFlags :: "Cmdline \<Rightarrow> event list \<times> (failure + Options \<times> string)" where
  "doFlags c =
     (case splitAuthbasic (fl_authbasic c) (flag_Parse c) of
        Inl f \<Rightarrow> ([], Inl f)
      | Inr options \<Rightarrow>
          if ipv6only options \<and> ipv4only options then
            ([Printf ''ERROR: Cannot specify both -4 and -6. Choose one.\<newline>'' [], Usage],
             Inl (OsExit 4))
          else
            (let options1 = (if ipv6only options \<or> ipv4only options
                             then options\<lparr>queryall := True\<rparr> else options);
                 options2 = (if queryall options1
                             then options1\<lparr>noredirect := True\<rparr> else options1)
             in if fl_h c \<or> length (fl_args c) \<noteq> 1 then
                  ((if length (fl_args c) \<noteq> 0
                    then [FprintfStderr ''ERROR: incorrect number of arguments\<newline>'' []]
                    else []) @ [Usage],
                   Inl (OsExit 4))
                else
                  (case index (fl_args c) 0 of
                     Inl f \<Rightarrow> ([], Inl f)
                   | Inr urlstring \<Rightarrow> ([], Inr (options2, urlstring)))))"

subsection \<open>Address resolution (\<^verbatim>\<open>part_001\<close>, lines 133-202)\<close>

definition portMap :: "string \<Rightarrow> string" where
  "portMap scheme =
     (if scheme = ''http'' then ''80'' else if scheme = ''https'' then ''443'' else '''')"

definition addressString :: "Env \<Rightarrow> IP \<Rightarrow> string \<Rightarrow> string" where
  "addressString env ipaddress port =
     (if \<not> ContainsColon (ip_String env ipaddress)
      then ip_String env ipaddress @ '':'' @ port
      else ''['' @ ip_String env ipaddress @ '']'' @ '':'' @ port)"

definition url2addressport :: "Env \<Rightarrow> string \<Rightarrow> error + (string \<times> string)" where
  "url2addressport env urlstring =
     (case url_Parse env urlstring of
        Inl e \<Rightarrow> Inl e
      | Inr parsedurl \<Rightarrow>
          Inr (Hostname parsedurl,
               if Port parsedurl = '''' then portMap (Scheme parsedurl) else Port parsedurl))"

text \<open>
  The loop of lines 190-199; the last argument is \<^verbatim>\<open>filteredlist\<close> as built so
  far.
\<close>
fun filterLoop :: "Options \<Rightarrow> IP list \<Rightarrow> IP list \<Rightarrow> IP list" where
  "filterLoop options [] filteredlist = filteredlist"
| "filterLoop options (ipaddress # rest) filteredlist =
     (let isipv4 = (To4 ipaddress \<noteq> None) in
      if ipv6only options \<and> isipv4 then filterLoop options rest filteredlist
      else if ipv4only options \<and> \<not> isipv4 then filterLoop options rest filteredlist
      else filterLoop options rest (filteredlist @ [ipaddress]))"

definition getIpList :: "Env \<Rightarrow> Options \<Rightarrow> string \<Rightarrow> event list \<times> (failure + IP list)" where
  "getIpList env options hostname =
     (case net_LookupIP env hostname of
        Inl e \<Rightarrow> ([LookupIP hostname], Inl (LogFatal e))
      | Inr iplist \<Rightarrow>
          if \<not> (ipv6only options \<or> ipv4only options) then ([LookupIP hostname], Inr iplist)
          else ([LookupIP hostname], Inr (filterLoop options iplist [])))"

subsection \<open>\<^verbatim>\<open>getRequest\<close> (\<^verbatim>\<open>part_001\<close>, lines 87-101)\<close>

text \<open>\<^verbatim>\<open>request.Header.Add(key, value)\<close>: the header stores the canonical form of the key.\<close>
definition request_Header_Add :: "Env \<Rightarrow> string \<Rightarrow> string \<Rightarrow> Request \<Rightarrow> Request" where
  "request_Header_Add env key v request =
     request\<lparr>req_Header := header_Add (canonicalKey env key) v (req_Header request)\<rparr>"

text \<open>
  The loop of lines 94-99 over \<^verbatim>\<open>options.headers\<close>. \<^verbatim>\<open>tmp[1]\<close> is read without a
  check of the length of \<^verbatim>\<open>tmp\<close>.
\<close>
fun addHeaders :: "Env \<Rightarrow> string list \<Rightarrow> Request \<Rightarrow> failure + Request" where
  "addHeaders env [] request = Inr request"
| "addHeaders env (header # rest) request =
     (let tmp = SplitN2 header in
      case index tmp 0 of
        Inl f \<Rightarrow> Inl f
      | Inr key \<Rightarrow>
          (case index tmp 1 of
             Inl f \<Rightarrow> Inl f
           | Inr val \<Rightarrow> addHeaders env rest (request_Header_Add env key val request)))"

definition getRequest :: "Env \<Rightarrow> Options \<Rightarrow> string \<Rightarrow> failure + Request" where
  "getRequest env options url =
     (case http_NewRequest env url of
        Some e \<Rightarrow> Inl (LogFatal e)
      | None \<Rightarrow>
          addHeaders env (headers options)
            (request_Header_Add env ''User-Agent'' (useragent options)
               \<lparr> req_URL = url, req_Header = [] \<rparr>))"

subsection \<open>\<^verbatim>\<open>getTLSConfig\<close> (\<^verbatim>\<open>src/tls.go\<close>, lines 171-200) and \<^verbatim>\<open>getClient\<close>\<close>

definition NewCertPool :: CertPool where
  "NewCertPool = []"

definition AppendCertsFromPEM :: "CertPool \<Rightarrow> byte list \<Rightarrow> CertPool" where
  "AppendCertsFromPEM pool pem = pool @ [pem]"

text \<open>\<^verbatim>\<open>new(tls.Config)\<close>.\<close>
definition new_TLSConfig :: TLSConfig where
  "new_TLSConfig =
     \<lparr> ServerName = '''', InsecureSkipVerify = False, RootCAs = None, Certificates = [] \<rparr>"

definition getTLSConfig :: "Env \<Rightarrow> Options \<Rightarrow> event list \<times> (failure + TLSConfig)" where
  "getTLSConfig env options =
     (let tlsconfig = (if sni options \<noteq> ''''
                       then new_TLSConfig\<lparr>ServerName := sni options\<rparr> else new_TLSConfig)
      in andThen
           (if noverify options then
              ([], Inr (tlsconfig\<lparr>InsecureSkipVerify := True\<rparr>))
            else if cacert options \<noteq> '''' then
              (case ioutil_ReadFile env (cacert options) of
                 Inl e \<Rightarrow> ([ReadFile (cacert options)], Inl (LogFatal e))
               | Inr pem \<Rightarrow>
                   ([ReadFile (cacert options)],
                    Inr (tlsconfig\<lparr>RootCAs := Some (AppendCertsFromPEM NewCertPool pem)\<rparr>)))
            else ([], Inr tlsconfig))
           (\<lambda>tlsconfig1.
              if clientcert options \<noteq> '''' then
                (case tls_LoadX509KeyPair env (clientcert options) (clientkey options) of
                   Inl e \<Rightarrow>
                     ([LoadX509KeyPair (clientcert options) (clientkey options)],
                      Inl (LogFatal e))
                 | Inr clientcreds \<Rightarrow>
                     ([LoadX509KeyPair (clientcert options) (clientkey options)],
                      Inr (tlsconfig1\<lparr>Certificates := [clientcreds]\<rparr>)))
              else ([], Inr tlsconfig1)))"

text \<open>\<^verbatim>\<open>getClient\<close> (\<^verbatim>\<open>part_001\<close>, lines 103-131).\<close>
definition getClient :: "Env \<Rightarrow> Options \<Rightarrow> string \<Rightarrow> event list \<times> (failure + Client)" where
  "getClient env options address =
     andThen (getTLSConfig env options)
       (\<lambda>tlsconfig.
          let transport =
                \<lparr> TLSClientConfig = tlsconfig, ForceAttemptHTTP2 = True, DialContext = None \<rparr>;
              transport1 =
                (if address \<noteq> ''''
                 then transport\<lparr>DialContext := Some (DialFixed address (timeout options))\<rparr>
                 else transport);
              client =
                \<lparr> client_Timeout = timeout options, client_Transport = transport1,
                  CheckRedirect = False \<rparr>
          in ([], Inr (if noredirect options then client\<lparr>CheckRedirect := True\<rparr> else client)))"

subsection \<open>\<^verbatim>\<open>readResponse\<close> (\<^verbatim>\<open>part_001\<close>, lines 57-85)\<close>

text \<open>\<^verbatim>\<open>request.SetBasicAuth(username, password)\<close>; it changes the request in place.\<close>
definition SetBasicAuth :: "Env \<Rightarrow> Request \<Rightarrow> string \<Rightarrow> string \<Rightarrow> Request" where
  "SetBasicAuth env request u p =
     request\<lparr>req_Header := header_Set ''Authorization'' (basicAuth env u p) (req_Header request)\<rparr>"

text \<open>
  The function returns the events, the world after the call, the request as the call
  left it (the caller holds a pointer to it) and the \<^verbatim>\<open>Result\<close>. \<^verbatim>\<open>time.Now()\<close>
  reads the clock; \<^verbatim>\<open>time.Since(t0)\<close> is the clock's reading minus \<open>t0\<close>, a
  \<^verbatim>\<open>time.Duration\<close> in nanoseconds (an \<^verbatim>\<open>int64\<close>, large enough for 292 years).
\<close>
definition readResponse ::
  "Env \<Rightarrow> Options \<Rightarrow> World \<Rightarrow> Client \<Rightarrow> Request \<Rightarrow> event list \<times> World \<times> Request \<times> Result"
where
  "readResponse env options w client request =
     (let request1 = (if username options \<noteq> ''''
                      then SetBasicAuth env request (username options) (password options)
                      else request);
          t0 = clock w;
          outcome = client_Do env (ndo w) client request1;
          w1 = w\<lparr>clock := clock w + snd outcome, ndo := ndo w + 1\<rparr>
      in case fst outcome of
           Inl e \<Rightarrow> ([ClientDo client request1], w1, request1, new_Result\<lparr>err := Some e\<rparr>)
         | Inr resp \<Rightarrow>
             (let w2 = w1\<lparr>clock := clock w1 + readtime (Body resp)\<rparr>
              in ([ClientDo client request1, ReadAll, BodyClose], w2, request1,
                  new_Result
                    \<lparr> responsetime := int (clock w2) - int t0,
                      response := Some resp,
                      body := content (Body resp),
                      err := readerr (Body resp) \<rparr>)))"

subsection \<open>Reporting (\<^verbatim>\<open>src/tls.go\<close>; \<^verbatim>\<open>part_001\<close>, lines 38-55)\<close>

text \<open>
  The three tables of \<^verbatim>\<open>src/tls.go\<close>, lines 19-60, with the values of the
  \<^verbatim>\<open>crypto/x509\<close> constants. A key that is not in a Go map reads as the empty
  string.
\<close>
definition TLSversion :: "16 word \<Rightarrow> string" where
  "TLSversion v =
     (if v = 0x0300 then ''SSL3.0''
      else if v = 0x0301 then ''TLS1.0''
      else if v = 0x0302 then ''TLS1.1''
      else if v = 0x0303 then ''TLS1.2''
      else if v = 0x0304 then ''TLS1.3''
      else '''')"

definition KeyUsage_map :: "(int \<times> string) list" where
  "KeyUsage_map =
     [(1, ''DigitalSignature''), (2, ''ContentCommitment''), (4, ''KeyEncipherment''),
      (8, ''DataEncipherment''), (16, ''KeyAgreement''), (32, ''CertSign''),
      (64, ''CRLSign''), (128, ''EncipherOnly''), (256, ''DecipherOnly'')]"

definition ExtendedKeyUsage_map :: "(int \<times> string) list" where
  "ExtendedKeyUsage_map =
     [(0, ''Any''), (1, ''ServerAuth''), (2, ''ClientAuth''), (3, ''CodeSigning''),
      (4, ''EmailProtection''), (5, ''IPSECEndSystem''), (6, ''IPSECTunnel''),
      (7, ''IPSECUser''), (8, ''TimeStamping''), (9, ''OCSPSigning''),
      (10, ''MicrosoftServerGatedCrypto''), (11, ''NetscapeServerGatedCrypto''),
      (12, ''MicrosoftCommercialCodeSigning''), (13, ''MicrosoftKernelCodeSigning'')]"

text \<open>
  \<open>KU2Strings\<close> (lines 65-74) ranges over the \<^verbatim>\<open>KeyUsage\<close> map; \<open>visit\<close> is the
  order in which this loop visits the entries of the map, so the names of the usages
  that are set are joined in that order.
\<close>
definition KU2Strings :: "(int \<times> string) list \<Rightarrow> int \<Rightarrow> string" where
  "KU2Strings visit ku = Join (map snd (filter (\<lambda>(k, v). ku AND k = k) visit)) '' ''"

definition EKU2Strings :: "int list \<Rightarrow> string" where
  "EKU2Strings ekulist =
     Join (map (\<lambda>eku. case map_of ExtendedKeyUsage_map eku of None \<Rightarrow> '''' | Some v \<Rightarrow> v)
             ekulist) '' ''"

fun KeySizeInBits :: "PublicKey \<Rightarrow> int" where
  "KeySizeInBits (RSAPublicKey n) = int n * 8"
| "KeySizeInBits (ECDSAPublicKey x y) = int x + int y"
| "KeySizeInBits Ed25519PublicKey = 256"
| "KeySizeInBits OtherPublicKey = 0"

text \<open>
  \<open>printCertDetails\<close> (lines 109-143); \<open>visit\<close> is the order of the one loop over
  the \<^verbatim>\<open>KeyUsage\<close> map that the call runs.
\<close>
definition printCertDetails :: "(int \<times> string) list \<Rightarrow> X509 \<Rightarrow> event list" where
  "printCertDetails visit cert =
     [Printf ''   X509 version: %d\<newline>'' [GInt (Version cert)],
      Printf ''   Serial#: %x\<newline>'' [GInt (SerialNumber cert)],
      Printf ''   Subject: %v\<newline>'' [GString (Subject cert)],
      Printf ''   Issuer:  %v\<newline>'' [GString (Issuer cert)]]
     @ map (\<lambda>dnsName. Printf ''   SAN dNSName: %s\<newline>'' [GString dnsName]) (DNSNames cert)
     @ map (\<lambda>ipAddress. Printf ''   SAN IPaddress: %s\<newline>'' [GIP ipAddress]) (IPAddresses cert)
     @ map (\<lambda>emailAddress. Printf ''   SAN emailAddress: %s\<newline>'' [GString emailAddress])
         (EmailAddresses cert)
     @ map (\<lambda>uri. Printf ''   SAN URI: %v\<newline>'' [GString uri]) (URIs cert)
     @ [Printf ''   Signature Algorithm: %v\<newline>'' [GString (SignatureAlgorithm cert)],
        Printf ''   PublicKey Algorithm: %v %d-Bits\<newline>''
          [GString (PublicKeyAlgorithm cert), GInt (KeySizeInBits (PublicKey cert))],
        Printf ''   Inception:  %v\<newline>'' [GString (NotBefore cert)],
        Printf ''   Expiration: %v\<newline>'' [GString (NotAfter cert)],
        Printf ''   KU: %v\<newline>'' [GString (KU2Strings visit (KeyUsage cert))],
        Printf ''   EKU: %v\<newline>'' [GString (EKU2Strings (ExtKeyUsage cert))]]
     @ (if BasicConstraintsValid cert
        then [Printf ''   Is CA?: %v\<newline>'' [GBool (IsCA cert)]] else [])
     @ [Printf ''   SKI: %x\<newline>'' [GBytes (SubjectKeyId cert)],
        Printf ''   AKI: %x\<newline>'' [GBytes (AuthorityKeyId cert)],
        Printf ''   OSCP Servers: %v\<newline>'' [GStrings (OCSPServer cert)],
        Printf ''   CA Issuer URL: %v\<newline>'' [GStrings (IssuingCertificateURL cert)],
        Printf ''   CRL Distribution: %v\<newline>'' [GStrings (CRLDistributionPoints cert)],
        Printf ''   Policy OIDs: %v\<newline>'' [GOIDs (PolicyIdentifiers cert)]]"

text \<open>
  \<open>printCertChainDetails\<close> (lines 148-155); \<open>visits i\<close> is the order of the loop over
  the \<^verbatim>\<open>KeyUsage\<close> map for the certificate at depth \<open>i\<close>.
\<close>
definition printCertChainDetails :: "(nat \<Rightarrow> (int \<times> string) list) \<Rightarrow> X509 list \<Rightarrow> event list" where
  "printCertChainDetails visits chain =
     Printf ''## -------------- FULL Certificate Chain ----------------\<newline>'' []
     # concat (map (\<lambda>(i, cert).
                     Printf ''## Certificate at Depth: %d\<newline>'' [GInt (int i)]
                     # printCertDetails (visits i) cert)
                (enumerate 0 chain))"

definition printVerifiedChains :: "X509 list list \<Rightarrow> event list" where
  "printVerifiedChains verifiedchains =
     concat (map (\<lambda>(i, row).
                    Printf ''## Verified Certificate Chain %d:\<newline>'' [GInt (int i)]
                    # concat (map (\<lambda>(j, cert).
                                    [Printf ''  %2d %v\<newline>'' [GInt (int j), GString (Subject cert)],
                                     Printf ''     %v\<newline>'' [GString (Issuer cert)]])
                               (enumerate 0 row)))
               (enumerate 0 verifiedchains))"

text \<open>
  \<^verbatim>\<open>printTLSinfo\<close> (\<^verbatim>\<open>src/tls.go\<close>, lines 202-222). \<^verbatim>\<open>PeerCertificates[0]\<close> is
  read without a check of the length; it is the certificate at depth 0.
\<close>
definition printTLSinfo ::
  "(nat \<Rightarrow> (int \<times> string) list) \<Rightarrow> Options \<Rightarrow> Response \<Rightarrow> event list \<times> (failure + unit)"
where
  "printTLSinfo visits options resp =
     (case TLS resp of
        None \<Rightarrow> ([Println [GString ''## TLS Connection Info: NONE'']], Inr ())
      | Some tls \<Rightarrow>
          andThen
            ([Println [GString ''## TLS Connection Info:''],
              Printf ''   TLS version: %s\<newline>'' [GString (TLSversion (conn_Version tls))],
              Printf ''   TLS Resumed: %v\<newline>'' [GBool (DidResume tls)],
              Printf ''   TLS CipherSuite: %s\<newline>'' [GCipherSuiteName (CipherSuite tls)],
              Printf ''   TLS ALPN: %s\<newline>'' [GString (NegotiatedProtocol tls)],
              Printf ''   TLS SNI: %s\<newline>'' [GString (conn_ServerName tls)]],
             Inr ())
            (\<lambda>u. if showcertchain options then
                    (printCertChainDetails visits (PeerCertificates tls)
                     @ printVerifiedChains (VerifiedChains tls),
                     Inr ())
                  else if showcert options then
                    (case index (PeerCertificates tls) 0 of
                       Inl f \<Rightarrow> ([Println [GString ''   ## Peer Certificate:'']], Inl f)
                     | Inr cert \<Rightarrow>
                         (Println [GString ''   ## Peer Certificate:'']
                          # printCertDetails (visits 0) cert,
                          Inr ()))
                  else ([], Inr ())))"

definition printStatus :: "Response \<Rightarrow> event list" where
  "printStatus resp =
     [Println [GString ''## HTTP Status:''],
      Printf ''   HTTP Status: %d %s\<newline>'' [GInt (StatusCode resp), GStatusText (StatusCode resp)],
      Printf ''   HTTP Protocol: %d %d %s\<newline>''
        [GInt (ProtoMajor resp), GInt (ProtoMinor resp), GString (Proto resp)],
      Printf ''   HTTP ContentLength: %d\<newline>'' [GInt (ContentLength resp)],
      Printf ''   HTTP Close: %v\<newline>'' [GBool (Close resp)],
      Printf ''   HTTP Uncompressed: %v\<newline>'' [GBool (Uncompressed resp)]]"

definition printHeaders :: "Header \<Rightarrow> event list" where
  "printHeaders header =
     Println [GString ''## HTTP Headers:'']
     # map (\<lambda>(headerkey, headervalue).
              Printf ''   %s: %s\<newline>'' [GString headerkey, GString (Join headervalue '','')])
         header
     @ [Println [GString ''## End of HTTP Headers.'']]"

subsection \<open>\<^verbatim>\<open>querySingle\<close> and \<^verbatim>\<open>main\<close> (\<^verbatim>\<open>part_001\<close>, lines 156-240)\<close>

text \<open>
  Lines 165-174 of \<^verbatim>\<open>querySingle\<close>, reached when \<^verbatim>\<open>result.err\<close> is \<^verbatim>\<open>nil\<close>.
  \<^verbatim>\<open>result.response\<close> is a pointer, dereferenced by \<^verbatim>\<open>printTLSinfo\<close>. \<open>visits\<close>
  gives the orders of the loops over the \<^verbatim>\<open>KeyUsage\<close> map that this report runs.
\<close>
definition printResult ::
  "(nat \<Rightarrow> (int \<times> string) list) \<Rightarrow> Options \<Rightarrow> Result \<Rightarrow> event list \<times> (failure + unit)"
where
  "printResult visits options result =
     andThen
       (if \<not> bodyonly options then
          andThen
            ([Printf ''## ResponseTime: %v\<newline>'' [GDuration (responsetime result)]], Inr ())
            (\<lambda>u. case response result of
                    None \<Rightarrow> ([], Inl (Panic NilDereference))
                  | Some resp \<Rightarrow>
                      andThen (printTLSinfo visits options resp)
                        (\<lambda>u. (printStatus resp @ printHeaders (Header resp), Inr ())))
        else ([], Inr ()))
       (\<lambda>u. if printbody options \<or> bodyonly options
             then ([Printf ''%s\<newline>'' [GBytes (body result)]], Inr ())
             else ([], Inr ()))"

text \<open>
  The result of \<open>querySingle\<close>: the events, the world and the request after the call, and
  the failure that ended the process, if one did. The exchange of this call is the
  one numbered \<open>ndo w\<close>.
\<close>
definition querySingle ::
  "Env \<Rightarrow> Options \<Rightarrow> World \<Rightarrow> Request \<Rightarrow> string \<Rightarrow> event list \<times> World \<times> Request \<times> failure option"
where
  "querySingle env options w request address =
     (case getClient env options address of
        (es, Inl f) \<Rightarrow> (es, w, request, Some f)
      | (es, Inr client) \<Rightarrow>
          (case readResponse env options w client request of
             (es1, w1, request1, result) \<Rightarrow>
               (case err result of
                  Some e \<Rightarrow> (es @ es1 @ [Println [GError e]], w1, request1, None)
                | None \<Rightarrow>
                    (case printResult (range_KeyUsage env (ndo w)) options result of
                       (es2, Inl f) \<Rightarrow> (es @ es1 @ es2, w1, request1, Some f)
                     | (es2, Inr u) \<Rightarrow> (es @ es1 @ es2, w1, request1, None)))))"

text \<open>The line printed before each attempt of the loop (line 233).\<close>
definition connectLine :: "IP \<Rightarrow> string \<Rightarrow> event" where
  "connectLine ipaddress port =
     Printf ''\<newline>CONNECT: %s %s ..\<newline>'' [GIP ipaddress, GString port]"

text \<open>The loop of lines 232-235 over \<^verbatim>\<open>iplist\<close>.\<close>
fun queryAll ::
  "Env \<Rightarrow> Options \<Rightarrow> World \<Rightarrow> Request \<Rightarrow> string \<Rightarrow> IP list
     \<Rightarrow> event list \<times> World \<times> Request \<times> failure option"
where
  "queryAll env options w request port [] = ([], w, request, None)"
| "queryAll env options w request port (ipaddress # rest) =
     (case querySingle env options w request (addressString env ipaddress port) of
        (es, w1, request1, Some f) \<Rightarrow> (connectLine ipaddress port # es, w1, request1, Some f)
      | (es, w1, request1, None) \<Rightarrow>
          (case queryAll env options w1 request1 port rest of
             (es', w2, request2, r) \<Rightarrow> (connectLine ipaddress port # es @ es', w2, request2, r)))"

definition prologue :: "string \<Rightarrow> string \<Rightarrow> string \<Rightarrow> IP list \<Rightarrow> event list" where
  "prologue urlstring hostname port iplist =
     [Printf ''URL: %s\<newline>Hostname: %s\<newline>Port: %s\<newline>''
        [GString urlstring, GString hostname, GString port],
      Println [GString ''Addresses:'']]
     @ map (\<lambda>ipaddress. Printf (CHR 0x09 # ''%s\<newline>'') [GIP ipaddress]) iplist"

text \<open>The world at the start of the process.\<close>
definition world0 :: World where
  "world0 = \<lparr> clock = 0, ndo = 0 \<rparr>"

text \<open>
  \<^verbatim>\<open>main\<close>: the events of the run, and the failure that ended it (\<open>None\<close> when
  \<^verbatim>\<open>main\<close> returned).
\<close>
definition main :: "Env \<Rightarrow> Cmdline \<Rightarrow> event list \<times> failure option" where
  "main env c =
     (case
        andThen (doFlags c)
          (\<lambda>(options, urlstring).
             case url2addressport env urlstring of
               Inl e \<Rightarrow> ([], Inl (LogFatal e))
             | Inr (hostname, port) \<Rightarrow>
                 andThen (getIpList env options hostname)
                   (\<lambda>iplist.
                      andThen
                        (if \<not> bodyonly options
                         then (prologue urlstring hostname port iplist, Inr ())
                         else ([], Inr ()))
                        (\<lambda>u. andThen ([], getRequest env options urlstring)
                               (\<lambda>request.
                                  if queryall options then
                                    (case queryAll env options world0 request port iplist of
                                       (es, w, request1, Some f) \<Rightarrow> (es, Inl f)
                                     | (es, w, request1, None) \<Rightarrow> (es, Inr ()))
                                  else
                                    (case querySingle env options world0 request '''' of
                                       (es, w, request1, Some f) \<Rightarrow> (Println [] # es, Inl f)
                                     | (es, w, request1, None) \<Rightarrow> (Println [] # es, Inr ()))))))
      of
        (es, Inl f) \<Rightarrow> (es, Some f)
      | (es, Inr u) \<Rightarrow> (es, None))"

subsection \<open>Observations on a run\<close>

text \<open>
  The line of the loop that announces an address, the errors that \<open>querySingle\<close>
  reports with \<^verbatim>\<open>fmt.Println(result.err)\<close>, and the error of an exchange, if it has
  one: the error of \<^verbatim>\<open>client.Do\<close>, or else the error of reading the body.
\<close>
fun is_connectLine :: "event \<Rightarrow> bool" where
  "is_connectLine (Printf f args) = (f = ''\<newline>CONNECT: %s %s ..\<newline>'')"
| "is_connectLine e = False"

definition is_probe :: "event \<Rightarrow> bool" where
  "is_probe e = (is_connectLine e \<or> is_attempt e)"

fun reported :: "event \<Rightarrow> error list" where
  "reported (Println [GError e]) = [e]"
| "reported e = []"

definition attemptError :: "(error + Response) \<Rightarrow> error list" where
  "attemptError r =
     (case r of
        Inl e \<Rightarrow> [e]
      | Inr resp \<Rightarrow> (case readerr (Body resp) of None \<Rightarrow> [] | Some e \<Rightarrow> [e]))"

text \<open>
  A response of a TLS connection carries the server's certificates: \<^verbatim>\<open>crypto/tls\<close>
  gives a client at least the leaf.
\<close>
definition has_peer :: "Response \<Rightarrow> bool" where
  "has_peer resp = (case TLS resp of None \<Rightarrow> True | Some tls \<Rightarrow> PeerCertificates tls \<noteq> [])"

text \<open>
  The request as \<open>readResponse\<close> hands it to the client (lines 65-67), and the client
  that \<open>getClient\<close> assembles around a TLS configuration (lines 105-130).
\<close>
definition withAuth :: "Env \<Rightarrow> Options \<Rightarrow> Request \<Rightarrow> Request" where
  "withAuth env options request =
     (if username options \<noteq> ''''
      then SetBasicAuth env request (username options) (password options)
      else request)"

definition builtClient :: "Options \<Rightarrow> TLSConfig \<Rightarrow> string \<Rightarrow> Client" where
  "builtClient options tlsconfig address =
     \<lparr> client_Timeout = timeout options,
       client_Transport =
         \<lparr> TLSClientConfig = tlsconfig, ForceAttemptHTTP2 = True,
           DialContext =
             (if address \<noteq> '''' then Some (DialFixed address (timeout options)) else None) \<rparr>,
       CheckRedirect = noredirect options \<rparr>"

text \<open>
  The events of a run that show how the loop of \<open>main\<close> proceeds: the line announcing
  an address, an attempt, and the line that reports the error of an attempt.
\<close>
definition is_inline :: "event \<Rightarrow> bool" where
  "is_inline e = (is_probe e \<or> reported e \<noteq> [])"

text \<open>
  The events of a call of \<open>querySingle\<close> that returns, for the exchange numbered \<open>k\<close>
  made on \<open>client\<close> with \<open>request\<close>: the events \<open>tes\<close> of building the TLS
  configuration, the attempt, and then either the line with the error of the attempt
  or, after the body has been read and closed without an error, the report of the
  result.
\<close>
definition attemptTrace ::
  "Env \<Rightarrow> Options \<Rightarrow> event list \<Rightarrow> Client \<Rightarrow> Request \<Rightarrow> nat \<Rightarrow> event list"
where
  "attemptTrace env options tes client request k =
     tes @ ClientDo client request
     # (case fst (client_Do env k client request) of
          Inl e \<Rightarrow> [Println [GError e]]
        | Inr resp \<Rightarrow>
            ReadAll # BodyClose
            # (case readerr (Body resp) of
                 Some e \<Rightarrow> [Println [GError e]]
               | None \<Rightarrow>
                   fst (printResult (range_KeyUsage env k) options
                          \<lparr> response = Some resp, body = content (Body resp),
                            responsetime = int (snd (client_Do env k client request))
                                           + int (readtime (Body resp)),
                            err = None \<rparr>)))"

subsection \<open>Example inputs\<close>

text \<open>
  A command line with every flag at its default and one URL, two addresses, a
  plaintext response, and an environment built from the outcome of the lookup, the
  outcome of reading a file and the outcomes of the exchanges. In this environment
  every loop over the \<^verbatim>\<open>KeyUsage\<close> map visits the entries in the reverse of the order
  of the source text.
\<close>
definition ex_cmdline :: Cmdline where
  "ex_cmdline =
     \<lparr> fl_h = False, fl_6 = False, fl_4 = False, fl_t = defaultTimeout,
       fl_printbody = False, fl_bodyonly = False, fl_queryall = False,
       fl_noredirect = False, fl_sni = '''', fl_header = [], fl_cacert = '''',
       fl_clientcert = '''', fl_clientkey = '''', fl_authbasic = '''',
       fl_showcert = False, fl_showcertchain = False, fl_noverify = False,
       fl_args = [''https://example.test/''] \<rparr>"

definition ex_v4 :: IP where
  "ex_v4 = [192, 0, 2, 1]"

definition ex_v6 :: IP where
  "ex_v6 = [0x20, 0x01, 0x0d, 0xb8, 0, 0, 0, 0, 0, 0, 0, 0, 0, 0, 0, 1]"

definition ex_response :: "error option \<Rightarrow> Response" where
  "ex_response readfailure =
     \<lparr> StatusCode = 200, Proto = ''HTTP/1.1'', ProtoMajor = 1, ProtoMinor = 1,
       ContentLength = 2, Close = False, Uncompressed = False,
       Header = [(''Content-Type'', [''text/plain''])],
       Body = \<lparr> content = [0x6f, 0x6b], readerr = readfailure, readtime = 5000 \<rparr>,
       TLS = None \<rparr>"

definition ex_env ::
  "(error + IP list) \<Rightarrow> (error + byte list) \<Rightarrow> (nat \<Rightarrow> (error + Response) \<times> nat) \<Rightarrow> Env"
where
  "ex_env lookup file exchange =
     \<lparr> url_Parse = (\<lambda>u. Inr \<lparr> Scheme = ''https'', Hostname = ''example.test'', Port = '''' \<rparr>),
       http_NewRequest = (\<lambda>u. None),
       net_LookupIP = (\<lambda>h. lookup),
       ip_String = (\<lambda>ip. if length ip = 4 then ''192.0.2.1'' else ''2001:db8::1''),
       ioutil_ReadFile = (\<lambda>p. file),
       tls_LoadX509KeyPair = (\<lambda>certfile keyfile. Inl ''open: no such file or directory''),
       basicAuth = (\<lambda>u p. ''Basic '' @ u @ '':'' @ p),
       canonicalKey = (\<lambda>k. k),
       client_Do = (\<lambda>k client request. exchange k),
       range_KeyUsage = (\<lambda>k i. rev KeyUsage_map) \<rparr>"

definition ex_client :: Client where
  "ex_client =
     \<lparr> client_Timeout = defaultTimeout,
       client_Transport =
         \<lparr> TLSClientConfig = new_TLSConfig, ForceAttemptHTTP2 = True,
           DialContext = Some (DialFixed ''192.0.2.1:443'' defaultTimeout) \<rparr>,
       CheckRedirect = False \<rparr>"

definition ex_request :: Request where
  "ex_request =
     \<lparr> req_URL = ''https://example.test/'', req_Header = [(''User-Agent'', [''gohttp''])] \<rparr>"

definition ex_cert :: X509 where
  "ex_cert =
     \<lparr> Version = 3, SerialNumber = 4096, Subject = ''CN=example.test'',
       Issuer = ''CN=Example CA'', DNSNames = [''example.test''], IPAddresses = [],
       EmailAddresses = [], URIs = [], SignatureAlgorithm = ''SHA256-RSA'',
       PublicKeyAlgorithm = ''RSA'', PublicKey = RSAPublicKey 256,
       NotBefore = ''2020-01-01 00:00:00 +0000 UTC'',
       NotAfter = ''2021-01-01 00:00:00 +0000 UTC'', KeyUsage = 5, ExtKeyUsage = [1],
       BasicConstraintsValid = True, IsCA = False, SubjectKeyId = [1], AuthorityKeyId = [2],
       OCSPServer = [], IssuingCertificateURL = [], CRLDistributionPoints = [],
       PolicyIdentifiers = [] \<rparr>"

definition ex_ca :: X509 where
  "ex_ca =
     \<lparr> Version = 3, SerialNumber = 1, Subject = ''CN=Example CA'',
       Issuer = ''CN=Example CA'', DNSNames = [], IPAddresses = [],
       EmailAddresses = [], URIs = [], SignatureAlgorithm = ''ECDSA-SHA256'',
       PublicKeyAlgorithm = ''ECDSA'', PublicKey = ECDSAPublicKey 256 255,
       NotBefore = ''2019-01-01 00:00:00 +0000 UTC'',
       NotAfter = ''2029-01-01 00:00:00 +0000 UTC'', KeyUsage = 96, ExtKeyUsage = [],
       BasicConstraintsValid = True, IsCA = True, SubjectKeyId = [2], AuthorityKeyId = [],
       OCSPServer = [], IssuingCertificateURL = [], CRLDistributionPoints = [],
       PolicyIdentifiers = [] \<rparr>"

definition ex_tls :: ConnectionState where
  "ex_tls =
     \<lparr> conn_Version = 0x0304, DidResume = False, CipherSuite = 0x1301,
       NegotiatedProtocol = ''h2'', conn_ServerName = ''example.test'',
       PeerCertificates = [ex_cert, ex_ca], VerifiedChains = [[ex_cert, ex_ca]] \<rparr>"

section \<open>Properties\<close>

subsection \<open>Address filtering\<close>

lemma filterLoop_filter:
  "filterLoop options iplist acc =
     acc @ filter (\<lambda>ip. \<not> (ipv6only options \<and> To4 ip \<noteq> None)
                        \<and> \<not> (ipv4only options \<and> To4 ip = None)) iplist"
  by (induction iplist arbitrary: acc) (auto simp: Let_def)

lemma To4_ex_v4: "To4 ex_v4 = Some ex_v4"
  by (simp add: To4_def ex_v4_def)

lemma To4_ex_v6: "To4 ex_v6 = None"
  by (simp add: To4_def ex_v6_def)

text \<open>
  Claim C8. When the lookup of the hostname succeeds with the list \<open>iplist\<close>: with the
  IPv4 filter alone, \<open>getIpList\<close> returns exactly the entries of \<open>iplist\<close> that have a
  4-byte form (\<open>To4\<close> is not \<^verbatim>\<open>nil\<close>), in their order in \<open>iplist\<close>; with the IPv6
  filter alone, exactly the entries that have none, in their order; and whatever the
  filter, the result is a subsequence of \<open>iplist\<close>, so filtering never reorders the
  surviving entries.
\<close>
theorem getIpList_family_filter:
  assumes "net_LookupIP env hostname = Inr iplist"
  shows "(ipv4only options \<and> \<not> ipv6only options \<longrightarrow>
            snd (getIpList env options hostname) = Inr (filter (\<lambda>ip. To4 ip \<noteq> None) iplist))
       \<and> (ipv6only options \<and> \<not> ipv4only options \<longrightarrow>
            snd (getIpList env options hostname) = Inr (filter (\<lambda>ip. To4 ip = None) iplist))
       \<and> (\<exists>result. snd (getIpList env options hostname) = Inr result \<and> subseq result iplist)"
  using assms by (auto simp: getIpList_def filterLoop_filter)

theorem getIpList_family_filter_witness:
  "net_LookupIP (ex_env (Inr [ex_v6, ex_v4, ex_v6]) (Inl ''none'') (\<lambda>k. (Inl ''none'', 0)))
     ''example.test'' = Inr [ex_v6, ex_v4, ex_v6]
   \<and> snd (getIpList (ex_env (Inr [ex_v6, ex_v4, ex_v6]) (Inl ''none'') (\<lambda>k. (Inl ''none'', 0)))
            ((flag_Parse ex_cmdline)\<lparr>ipv6only := True\<rparr>) ''example.test'') = Inr [ex_v6, ex_v6]
   \<and> snd (getIpList (ex_env (Inr [ex_v6, ex_v4, ex_v6]) (Inl ''none'') (\<lambda>k. (Inl ''none'', 0)))
            ((flag_Parse ex_cmdline)\<lparr>ipv4only := True\<rparr>) ''example.test'') = Inr [ex_v4]"
proof -
  let ?env = "ex_env (Inr [ex_v6, ex_v4, ex_v6]) (Inl ''none'') (\<lambda>k. (Inl ''none'', 0))"
  have h: "net_LookupIP ?env ''example.test'' = Inr [ex_v6, ex_v4, ex_v6]"
    by (simp add: ex_env_def)
  show ?thesis
    using h
      getIpList_family_filter [OF h, of "(flag_Parse ex_cmdline)\<lparr>ipv6only := True\<rparr>"]
      getIpList_family_filter [OF h, of "(flag_Parse ex_cmdline)\<lparr>ipv4only := True\<rparr>"]
    by (simp add: To4_ex_v4 To4_ex_v6 flag_Parse_def ex_cmdline_def)
qed

subsection \<open>Configuration\<close>

lemma doFlags_ex4:
  "doFlags (ex_cmdline\<lparr>fl_4 := True\<rparr>) =
     ([], Inr ((flag_Parse (ex_cmdline\<lparr>fl_4 := True\<rparr>))\<lparr>queryall := True, noredirect := True\<rparr>,
               ''https://example.test/''))"
  by (simp add: doFlags_def splitAuthbasic_def ex_cmdline_def flag_Parse_def index_def)

text \<open>
  Claim C5. Every configuration that \<open>doFlags\<close> returns satisfies: if one of the family
  filters \<open>ipv4only\<close>, \<open>ipv6only\<close> is selected then \<open>queryall\<close> is set, and if
  \<open>queryall\<close> is set then \<open>noredirect\<close> is set (redirects are not followed). This is
  \<^verbatim>\<open>doFlags\<close> of lines 341-420; the earlier variant of lines 488-563 has the second
  implication only.
\<close>
theorem doFlags_invariant:
  assumes "doFlags c = (es, Inr (options, urlstring))"
  shows "((ipv4only options \<or> ipv6only options) \<longrightarrow> queryall options)
       \<and> (queryall options \<longrightarrow> noredirect options)"
  using assms
  by (auto simp: doFlags_def Let_def split: sum.splits if_splits)

theorem doFlags_invariant_witness:
  "ipv4only ((flag_Parse (ex_cmdline\<lparr>fl_4 := True\<rparr>))\<lparr>queryall := True, noredirect := True\<rparr>)
   \<and> queryall ((flag_Parse (ex_cmdline\<lparr>fl_4 := True\<rparr>))\<lparr>queryall := True, noredirect := True\<rparr>)
   \<and> noredirect ((flag_Parse (ex_cmdline\<lparr>fl_4 := True\<rparr>))\<lparr>queryall := True, noredirect := True\<rparr>)"
  using doFlags_invariant [OF doFlags_ex4]
  by (simp add: flag_Parse_def ex_cmdline_def)

lemma splitAuthbasic_keeps_filters:
  "splitAuthbasic a options = Inr options' \<Longrightarrow>
     ipv6only options' = ipv6only options \<and> ipv4only options' = ipv4only options"
  by (auto simp: splitAuthbasic_def Let_def split: if_splits sum.splits)

lemma splitAuthbasic_ok:
  assumes "a = '''' \<or> CHR '':'' \<in> set a"
  shows "\<exists>options'. splitAuthbasic a options = Inr options'"
proof (cases "a = ''''")
  case True
  then show ?thesis by (simp add: splitAuthbasic_def)
next
  case False
  with assms have "CHR '':'' \<in> set a" by simp
  then show ?thesis using False
    by (simp add: splitAuthbasic_def Let_def SplitN2_def index_def)
qed

lemma splitAuthbasic_fails:
  "splitAuthbasic a options = Inl f \<Longrightarrow> f = Panic (IndexOutOfRange 1 1)"
  by (auto simp: splitAuthbasic_def Let_def SplitN2_def index_def split: if_splits)

lemma doFlags_both:
  assumes "fl_6 c" and "fl_4 c"
  shows "doFlags c = ([], Inl (Panic (IndexOutOfRange 1 1))) \<or>
         doFlags c =
           ([Printf ''ERROR: Cannot specify both -4 and -6. Choose one.\<newline>'' [], Usage],
            Inl (OsExit 4))"
proof (cases "splitAuthbasic (fl_authbasic c) (flag_Parse c)")
  case (Inl f)
  with splitAuthbasic_fails [OF Inl] show ?thesis
    by (simp add: doFlags_def)
next
  case (Inr options)
  from splitAuthbasic_keeps_filters [OF Inr] assms
  have "ipv6only options \<and> ipv4only options" by (simp add: flag_Parse_def)
  with Inr show ?thesis by (simp add: doFlags_def)
qed

lemma main_doFlags_fails: "doFlags c = (es, Inl f) \<Longrightarrow> main env c = (es, Some f)"
  by (simp add: main_def andThen_def)

text \<open>
  Claim C9. When both family filters are set on the command line, \<open>doFlags\<close> does not
  return a configuration: it ends the process, \<open>main\<close> ends with that same failure
  after the events of \<open>doFlags\<close> alone, and the run contains no network event (no
  lookup of the hostname, no exchange). When the \<^verbatim>\<open>-authbasic\<close> argument is empty or
  has a colon, the failure is the explicit rejection: the message that both filters
  cannot be specified, the usage text, and exit status 4.
\<close>
theorem both_filters_rejected:
  assumes "fl_6 c" and "fl_4 c"
  shows "(\<exists>f. snd (doFlags c) = Inl f \<and> main env c = (fst (doFlags c), Some f))
       \<and> filter is_network (fst (main env c)) = []
       \<and> (fl_authbasic c = '''' \<or> CHR '':'' \<in> set (fl_authbasic c) \<longrightarrow>
            main env c =
              ([Printf ''ERROR: Cannot specify both -4 and -6. Choose one.\<newline>'' [], Usage],
               Some (OsExit 4)))"
proof (cases "fl_authbasic c = '''' \<or> CHR '':'' \<in> set (fl_authbasic c)")
  case True
  from splitAuthbasic_ok [OF True] obtain options' where
    s: "splitAuthbasic (fl_authbasic c) (flag_Parse c) = Inr options'"
    by blast
  from splitAuthbasic_keeps_filters [OF s] assms
  have "ipv6only options' \<and> ipv4only options'" by (simp add: flag_Parse_def)
  with s have d: "doFlags c =
      ([Printf ''ERROR: Cannot specify both -4 and -6. Choose one.\<newline>'' [], Usage],
       Inl (OsExit 4))"
    by (simp add: doFlags_def)
  show ?thesis using main_doFlags_fails [OF d] d by simp
next
  case False
  from doFlags_both [OF assms] show ?thesis
  proof
    assume d: "doFlags c = ([], Inl (Panic (IndexOutOfRange 1 1)))"
    show ?thesis using main_doFlags_fails [OF d] d False by simp
  next
    assume d: "doFlags c =
      ([Printf ''ERROR: Cannot specify both -4 and -6. Choose one.\<newline>'' [], Usage],
       Inl (OsExit 4))"
    show ?thesis using main_doFlags_fails [OF d] d by simp
  qed
qed

theorem both_filters_rejected_witness:
  "main (ex_env (Inr [ex_v4]) (Inl ''none'') (\<lambda>k. (Inl ''none'', 0)))
        (ex_cmdline\<lparr>fl_6 := True, fl_4 := True\<rparr>) =
     ([Printf ''ERROR: Cannot specify both -4 and -6. Choose one.\<newline>'' [], Usage],
      Some (OsExit 4))"
  using both_filters_rejected
          [of "ex_cmdline\<lparr>fl_6 := True, fl_4 := True\<rparr>"
              "ex_env (Inr [ex_v4]) (Inl ''none'') (\<lambda>k. (Inl ''none'', 0))"]
  by (simp add: ex_cmdline_def)

subsection \<open>TLS configuration\<close>

lemma getTLSConfig_noverify_eq:
  assumes "noverify options"
  shows "getTLSConfig env options =
     (if clientcert options \<noteq> '''' then
        (case tls_LoadX509KeyPair env (clientcert options) (clientkey options) of
           Inl e \<Rightarrow> ([LoadX509KeyPair (clientcert options) (clientkey options)], Inl (LogFatal e))
         | Inr clientcreds \<Rightarrow>
             ([LoadX509KeyPair (clientcert options) (clientkey options)],
              Inr \<lparr> ServerName = sni options, InsecureSkipVerify = True, RootCAs = None,
                    Certificates = [clientcreds] \<rparr>))
      else ([], Inr \<lparr> ServerName = sni options, InsecureSkipVerify = True, RootCAs = None,
                      Certificates = [] \<rparr>))"
  using assms
  by (simp add: getTLSConfig_def andThen_def new_TLSConfig_def Let_def split: sum.splits)

lemma getTLSConfig_RootCAs:
  assumes "snd (getTLSConfig env options) = Inr cfg"
  shows "RootCAs cfg =
           (if \<not> noverify options \<and> cacert options \<noteq> ''''
            then (case ioutil_ReadFile env (cacert options) of
                    Inl e \<Rightarrow> None | Inr pem \<Rightarrow> Some [pem])
            else None)"
    and "InsecureSkipVerify cfg = noverify options"
  using assms
  by (auto simp: getTLSConfig_def andThen_def new_TLSConfig_def Let_def
        AppendCertsFromPEM_def NewCertPool_def split: sum.splits if_splits)

lemma getTLSConfig_ReadFile:
  "ReadFile p \<in> set (fst (getTLSConfig env options))
     \<longleftrightarrow> \<not> noverify options \<and> cacert options \<noteq> '''' \<and> p = cacert options"
  by (auto simp: getTLSConfig_def andThen_def new_TLSConfig_def Let_def
        split: sum.splits if_splits)

text \<open>
  Claim C7. When \<open>noverify\<close> is set, \<open>getTLSConfig\<close> reads no file with
  \<^verbatim>\<open>ioutil.ReadFile\<close> (the CA bundle is not loaded, whatever \<open>cacert\<close> is), and the
  configuration it returns has \<open>InsecureSkipVerify\<close> set and \<open>RootCAs\<close> \<^verbatim>\<open>nil\<close>; it
  does return one when no client certificate is requested. In general a returned
  configuration has \<open>RootCAs\<close> set exactly when \<open>noverify\<close> is off and \<open>cacert\<close> is a
  path; a file is read exactly then, and it is the file \<open>cacert\<close>; and the pool is then
  a new pool holding the certificates of that file only, with verification left on.
\<close>
theorem getTLSConfig_skip_or_bundle:
  "(noverify options \<longrightarrow>
      (\<forall>p. ReadFile p \<notin> set (fst (getTLSConfig env options)))
      \<and> (\<forall>cfg. snd (getTLSConfig env options) = Inr cfg \<longrightarrow>
             InsecureSkipVerify cfg \<and> RootCAs cfg = None)
      \<and> (clientcert options = '''' \<longrightarrow> (\<exists>cfg. getTLSConfig env options = ([], Inr cfg))))
   \<and> (\<forall>cfg. snd (getTLSConfig env options) = Inr cfg \<longrightarrow>
         (RootCAs cfg \<noteq> None \<longleftrightarrow> \<not> noverify options \<and> cacert options \<noteq> ''''))
   \<and> (\<forall>p. ReadFile p \<in> set (fst (getTLSConfig env options)) \<longleftrightarrow>
         \<not> noverify options \<and> cacert options \<noteq> '''' \<and> p = cacert options)
   \<and> (\<forall>cfg pem. \<not> noverify options \<and> cacert options \<noteq> ''''
         \<and> ioutil_ReadFile env (cacert options) = Inr pem
         \<and> snd (getTLSConfig env options) = Inr cfg \<longrightarrow>
           RootCAs cfg = Some (AppendCertsFromPEM NewCertPool pem) \<and> \<not> InsecureSkipVerify cfg)"
proof (intro conjI allI impI)
  fix p assume "noverify options"
  then show "ReadFile p \<notin> set (fst (getTLSConfig env options))"
    by (simp add: getTLSConfig_ReadFile)
next
  fix cfg assume "noverify options" "snd (getTLSConfig env options) = Inr cfg"
  then show "InsecureSkipVerify cfg" by (simp add: getTLSConfig_RootCAs)
next
  fix cfg assume "noverify options" "snd (getTLSConfig env options) = Inr cfg"
  then show "RootCAs cfg = None" by (simp add: getTLSConfig_RootCAs)
next
  assume "noverify options" "clientcert options = ''''"
  then show "\<exists>cfg. getTLSConfig env options = ([], Inr cfg)"
    by (simp add: getTLSConfig_noverify_eq)
next
  fix cfg assume "snd (getTLSConfig env options) = Inr cfg"
  then show "(RootCAs cfg \<noteq> None) = (\<not> noverify options \<and> cacert options \<noteq> '''')"
    by (auto simp: getTLSConfig_def andThen_def new_TLSConfig_def Let_def
          split: sum.splits if_splits)
next
  fix p
  show "(ReadFile p \<in> set (fst (getTLSConfig env options))) =
          (\<not> noverify options \<and> cacert options \<noteq> '''' \<and> p = cacert options)"
    by (rule getTLSConfig_ReadFile)
next
  fix cfg pem
  assume a: "\<not> noverify options \<and> cacert options \<noteq> ''''
     \<and> ioutil_ReadFile env (cacert options) = Inr pem
     \<and> snd (getTLSConfig env options) = Inr cfg"
  then have c: "snd (getTLSConfig env options) = Inr cfg" by simp
  from a show "RootCAs cfg = Some (AppendCertsFromPEM NewCertPool pem)"
    by (simp add: getTLSConfig_RootCAs(1) [OF c] AppendCertsFromPEM_def NewCertPool_def)
  from a show "\<not> InsecureSkipVerify cfg"
    by (simp add: getTLSConfig_RootCAs(2) [OF c])
qed

theorem getTLSConfig_skip_or_bundle_witness:
  "getTLSConfig (ex_env (Inr [ex_v4]) (Inr [0x2d, 0x2d]) (\<lambda>k. (Inl ''none'', 0)))
     ((flag_Parse ex_cmdline)\<lparr>noverify := True, cacert := ''ca.pem''\<rparr>) =
     ([], Inr \<lparr> ServerName = '''', InsecureSkipVerify = True, RootCAs = None, Certificates = [] \<rparr>)
   \<and> getTLSConfig (ex_env (Inr [ex_v4]) (Inr [0x2d, 0x2d]) (\<lambda>k. (Inl ''none'', 0)))
     ((flag_Parse ex_cmdline)\<lparr>cacert := ''ca.pem''\<rparr>) =
     ([ReadFile ''ca.pem''],
      Inr \<lparr> ServerName = '''', InsecureSkipVerify = False, RootCAs = Some [[0x2d, 0x2d]],
            Certificates = [] \<rparr>)"
proof -
  let ?env = "ex_env (Inr [ex_v4]) (Inr [0x2d, 0x2d]) (\<lambda>k. (Inl ''none'', 0))"
  let ?skip = "(flag_Parse ex_cmdline)\<lparr>noverify := True, cacert := ''ca.pem''\<rparr>"
  let ?load = "(flag_Parse ex_cmdline)\<lparr>cacert := ''ca.pem''\<rparr>"
  have a: "getTLSConfig ?env ?skip =
     ([], Inr \<lparr> ServerName = '''', InsecureSkipVerify = True, RootCAs = None, Certificates = [] \<rparr>)"
    by (simp add: getTLSConfig_def andThen_def new_TLSConfig_def flag_Parse_def ex_cmdline_def)
  have b: "getTLSConfig ?env ?load =
     ([ReadFile ''ca.pem''],
      Inr \<lparr> ServerName = '''', InsecureSkipVerify = False, RootCAs = Some [[0x2d, 0x2d]],
            Certificates = [] \<rparr>)"
    by (simp add: getTLSConfig_def andThen_def new_TLSConfig_def flag_Parse_def ex_cmdline_def
          ex_env_def AppendCertsFromPEM_def NewCertPool_def)
  show ?thesis
    using getTLSConfig_skip_or_bundle [of ?skip ?env] getTLSConfig_skip_or_bundle [of ?load ?env] a b
    by simp
qed

subsection \<open>Certificate display\<close>

lemma printCertDetails_Printf: "Println x \<notin> set (printCertDetails visit cert)"
  by (auto simp: printCertDetails_def)

lemma printCertChainDetails_Printf: "Println x \<notin> set (printCertChainDetails visits chain)"
  by (auto simp: printCertChainDetails_def printCertDetails_Printf)

lemma printVerifiedChains_Printf: "Println x \<notin> set (printVerifiedChains verifiedchains)"
  by (auto simp: printVerifiedChains_def)

text \<open>
  Claim C10. For a response of a TLS connection, when \<open>showcertchain\<close> is set (whether
  or not \<open>showcert\<close> is set as well), \<open>printTLSinfo\<close> returns after printing exactly:
  the six connection lines; the line that opens the full chain; for every certificate
  of the peer chain, in order and with its depth counted from 0, the line with the
  depth followed by the lines of all its details; and, for every verified chain, in
  order and counted from 0, the line with its number followed, for every certificate
  of that chain, by the line with its position and subject and the line with its
  issuer. The line that opens the leaf-only block, \<^verbatim>\<open>   ## Peer Certificate:\<close>, is not
  printed.
\<close>
theorem printTLSinfo_chain_precedence:
  assumes "TLS resp = Some tls" and "showcertchain options"
  shows "printTLSinfo visits options resp =
           ([Println [GString ''## TLS Connection Info:''],
             Printf ''   TLS version: %s\<newline>'' [GString (TLSversion (conn_Version tls))],
             Printf ''   TLS Resumed: %v\<newline>'' [GBool (DidResume tls)],
             Printf ''   TLS CipherSuite: %s\<newline>'' [GCipherSuiteName (CipherSuite tls)],
             Printf ''   TLS ALPN: %s\<newline>'' [GString (NegotiatedProtocol tls)],
             Printf ''   TLS SNI: %s\<newline>'' [GString (conn_ServerName tls)],
             Printf ''## -------------- FULL Certificate Chain ----------------\<newline>'' []]
            @ concat (map (\<lambda>(i, cert).
                 [Printf ''## Certificate at Depth: %d\<newline>'' [GInt (int i)],
                  Printf ''   X509 version: %d\<newline>'' [GInt (Version cert)],
                  Printf ''   Serial#: %x\<newline>'' [GInt (SerialNumber cert)],
                  Printf ''   Subject: %v\<newline>'' [GString (Subject cert)],
                  Printf ''   Issuer:  %v\<newline>'' [GString (Issuer cert)]]
                 @ map (\<lambda>n. Printf ''   SAN dNSName: %s\<newline>'' [GString n]) (DNSNames cert)
                 @ map (\<lambda>a. Printf ''   SAN IPaddress: %s\<newline>'' [GIP a]) (IPAddresses cert)
                 @ map (\<lambda>m. Printf ''   SAN emailAddress: %s\<newline>'' [GString m])
                     (EmailAddresses cert)
                 @ map (\<lambda>u. Printf ''   SAN URI: %v\<newline>'' [GString u]) (URIs cert)
                 @ [Printf ''   Signature Algorithm: %v\<newline>'' [GString (SignatureAlgorithm cert)],
                    Printf ''   PublicKey Algorithm: %v %d-Bits\<newline>''
                      [GString (PublicKeyAlgorithm cert), GInt (KeySizeInBits (PublicKey cert))],
                    Printf ''   Inception:  %v\<newline>'' [GString (NotBefore cert)],
                    Printf ''   Expiration: %v\<newline>'' [GString (NotAfter cert)],
                    Printf ''   KU: %v\<newline>''
                      [GString (Join (map snd (filter (\<lambda>(k, v). KeyUsage cert AND k = k)
                                                 (visits i))) '' '')],
                    Printf ''   EKU: %v\<newline>''
                      [GString (Join (map (\<lambda>eku. case map_of ExtendedKeyUsage_map eku of
                                                    None \<Rightarrow> '''' | Some v \<Rightarrow> v)
                                        (ExtKeyUsage cert)) '' '')]]
                 @ (if BasicConstraintsValid cert
                    then [Printf ''   Is CA?: %v\<newline>'' [GBool (IsCA cert)]] else [])
                 @ [Printf ''   SKI: %x\<newline>'' [GBytes (SubjectKeyId cert)],
                    Printf ''   AKI: %x\<newline>'' [GBytes (AuthorityKeyId cert)],
                    Printf ''   OSCP Servers: %v\<newline>'' [GStrings (OCSPServer cert)],
                    Printf ''   CA Issuer URL: %v\<newline>'' [GStrings (IssuingCertificateURL cert)],
                    Printf ''   CRL Distribution: %v\<newline>''
                      [GStrings (CRLDistributionPoints cert)],
                    Printf ''   Policy OIDs: %v\<newline>'' [GOIDs (PolicyIdentifiers cert)]])
               (enumerate 0 (PeerCertificates tls)))
            @ concat (map (\<lambda>(i, row).
                 Printf ''## Verified Certificate Chain %d:\<newline>'' [GInt (int i)]
                 # concat (map (\<lambda>(j, cert).
                      [Printf ''  %2d %v\<newline>'' [GInt (int j), GString (Subject cert)],
                       Printf ''     %v\<newline>'' [GString (Issuer cert)]])
                    (enumerate 0 row)))
               (enumerate 0 (VerifiedChains tls))),
            Inr ())
       \<and> Println [GString ''   ## Peer Certificate:'']
           \<notin> set (fst (printTLSinfo visits options resp))"
proof -
  have e: "printTLSinfo visits options resp =
           ([Println [GString ''## TLS Connection Info:''],
             Printf ''   TLS version: %s\<newline>'' [GString (TLSversion (conn_Version tls))],
             Printf ''   TLS Resumed: %v\<newline>'' [GBool (DidResume tls)],
             Printf ''   TLS CipherSuite: %s\<newline>'' [GCipherSuiteName (CipherSuite tls)],
             Printf ''   TLS ALPN: %s\<newline>'' [GString (NegotiatedProtocol tls)],
             Printf ''   TLS SNI: %s\<newline>'' [GString (conn_ServerName tls)]]
            @ printCertChainDetails visits (PeerCertificates tls)
            @ printVerifiedChains (VerifiedChains tls),
            Inr ())"
    using assms by (simp add: printTLSinfo_def andThen_def)
  have n: "Println [GString ''   ## Peer Certificate:'']
             \<notin> set (fst (printTLSinfo visits options resp))"
    unfolding e
    by (simp add: printCertChainDetails_Printf printVerifiedChains_Printf)
  show ?thesis
    apply (rule conjI [OF _ n])
    unfolding e
    by (simp add: printCertChainDetails_def printVerifiedChains_def printCertDetails_def
          KU2Strings_def EKU2Strings_def)
qed


theorem printTLSinfo_chain_precedence_witness:
  "printTLSinfo (\<lambda>i. rev KeyUsage_map)
     ((flag_Parse ex_cmdline)\<lparr>showcert := True, showcertchain := True\<rparr>)
     ((ex_response None)\<lparr>TLS := Some ex_tls\<rparr>) =
   ([Println [GString ''## TLS Connection Info:''],
     Printf ''   TLS version: %s\<newline>'' [GString ''TLS1.3''],
     Printf ''   TLS Resumed: %v\<newline>'' [GBool False],
     Printf ''   TLS CipherSuite: %s\<newline>'' [GCipherSuiteName 0x1301],
     Printf ''   TLS ALPN: %s\<newline>'' [GString ''h2''],
     Printf ''   TLS SNI: %s\<newline>'' [GString ''example.test''],
     Printf ''## -------------- FULL Certificate Chain ----------------\<newline>'' [],
     Printf ''## Certificate at Depth: %d\<newline>'' [GInt 0],
     Printf ''   X509 version: %d\<newline>'' [GInt 3],
     Printf ''   Serial#: %x\<newline>'' [GInt 4096],
     Printf ''   Subject: %v\<newline>'' [GString ''CN=example.test''],
     Printf ''   Issuer:  %v\<newline>'' [GString ''CN=Example CA''],
     Printf ''   SAN dNSName: %s\<newline>'' [GString ''example.test''],
     Printf ''   Signature Algorithm: %v\<newline>'' [GString ''SHA256-RSA''],
     Printf ''   PublicKey Algorithm: %v %d-Bits\<newline>'' [GString ''RSA'', GInt 2048],
     Printf ''   Inception:  %v\<newline>'' [GString ''2020-01-01 00:00:00 +0000 UTC''],
     Printf ''   Expiration: %v\<newline>'' [GString ''2021-01-01 00:00:00 +0000 UTC''],
     Printf ''   KU: %v\<newline>'' [GString ''KeyEncipherment DigitalSignature''],
     Printf ''   EKU: %v\<newline>'' [GString ''ServerAuth''],
     Printf ''   Is CA?: %v\<newline>'' [GBool False],
     Printf ''   SKI: %x\<newline>'' [GBytes [1]],
     Printf ''   AKI: %x\<newline>'' [GBytes [2]],
     Printf ''   OSCP Servers: %v\<newline>'' [GStrings []],
     Printf ''   CA Issuer URL: %v\<newline>'' [GStrings []],
     Printf ''   CRL Distribution: %v\<newline>'' [GStrings []],
     Printf ''   Policy OIDs: %v\<newline>'' [GOIDs []],
     Printf ''## Certificate at Depth: %d\<newline>'' [GInt 1],
     Printf ''   X509 version: %d\<newline>'' [GInt 3],
     Printf ''   Serial#: %x\<newline>'' [GInt 1],
     Printf ''   Subject: %v\<newline>'' [GString ''CN=Example CA''],
     Printf ''   Issuer:  %v\<newline>'' [GString ''CN=Example CA''],
     Printf ''   Signature Algorithm: %v\<newline>'' [GString ''ECDSA-SHA256''],
     Printf ''   PublicKey Algorithm: %v %d-Bits\<newline>'' [GString ''ECDSA'', GInt 511],
     Printf ''   Inception:  %v\<newline>'' [GString ''2019-01-01 00:00:00 +0000 UTC''],
     Printf ''   Expiration: %v\<newline>'' [GString ''2029-01-01 00:00:00 +0000 UTC''],
     Printf ''   KU: %v\<newline>'' [GString ''CRLSign CertSign''],
     Printf ''   EKU: %v\<newline>'' [GString ''''],
     Printf ''   Is CA?: %v\<newline>'' [GBool True],
     Printf ''   SKI: %x\<newline>'' [GBytes [2]],
     Printf ''   AKI: %x\<newline>'' [GBytes []],
     Printf ''   OSCP Servers: %v\<newline>'' [GStrings []],
     Printf ''   CA Issuer URL: %v\<newline>'' [GStrings []],
     Printf ''   CRL Distribution: %v\<newline>'' [GStrings []],
     Printf ''   Policy OIDs: %v\<newline>'' [GOIDs []],
     Printf ''## Verified Certificate Chain %d:\<newline>'' [GInt 0],
     Printf ''  %2d %v\<newline>'' [GInt 0, GString ''CN=example.test''],
     Printf ''     %v\<newline>'' [GString ''CN=Example CA''],
     Printf ''  %2d %v\<newline>'' [GInt 1, GString ''CN=Example CA''],
     Printf ''     %v\<newline>'' [GString ''CN=Example CA'']],
    Inr ())"
proof -
  let ?options = "(flag_Parse ex_cmdline)\<lparr>showcert := True, showcertchain := True\<rparr>"
  let ?resp = "(ex_response None)\<lparr>TLS := Some ex_tls\<rparr>"
  have t: "TLS ?resp = Some ex_tls" by simp
  have s: "showcertchain ?options" by simp
  have p: "PeerCertificates ex_tls = [ex_cert, ex_ca]" "VerifiedChains ex_tls = [[ex_cert, ex_ca]]"
    "conn_Version ex_tls = 0x0304" "DidResume ex_tls = False" "CipherSuite ex_tls = 0x1301"
    "NegotiatedProtocol ex_tls = ''h2''" "conn_ServerName ex_tls = ''example.test''"
    by (simp_all add: ex_tls_def)
  show ?thesis
    using printTLSinfo_chain_precedence [OF t s, of "\<lambda>i. rev KeyUsage_map"]
    by (simp add: p ex_cert_def ex_ca_def KeyUsage_map_def ExtendedKeyUsage_map_def
          TLSversion_def)
qed

subsection \<open>The result of one exchange\<close>

lemma readResponse_ex_midread:
  "readResponse
     (ex_env (Inr [ex_v4]) (Inl ''none'')
        (\<lambda>k. (Inr (ex_response (Some ''unexpected EOF'')), 1000)))
     (flag_Parse ex_cmdline) world0 ex_client ex_request =
   ([ClientDo ex_client ex_request, ReadAll, BodyClose], \<lparr> clock = 6000, ndo = 1 \<rparr>, ex_request,
    \<lparr> response = Some (ex_response (Some ''unexpected EOF'')), body = [0x6f, 0x6b],
      responsetime = 6000, err = Some ''unexpected EOF'' \<rparr>)"
  by (simp add: readResponse_def Let_def new_Result_def ex_env_def flag_Parse_def ex_cmdline_def
        world0_def ex_response_def)

lemma readResponse_ex_ok:
  "readResponse (ex_env (Inr [ex_v4]) (Inl ''none'') (\<lambda>k. (Inr (ex_response None), 1000)))
     (flag_Parse ex_cmdline) world0 ex_client ex_request =
   ([ClientDo ex_client ex_request, ReadAll, BodyClose], \<lparr> clock = 6000, ndo = 1 \<rparr>, ex_request,
    \<lparr> response = Some (ex_response None), body = [0x6f, 0x6b],
      responsetime = 6000, err = None \<rparr>)"
  by (simp add: readResponse_def Let_def new_Result_def ex_env_def flag_Parse_def ex_cmdline_def
        world0_def ex_response_def)

lemma client_Do_ex_ok:
  "client_Do (ex_env (Inr [ex_v4]) (Inl ''none'') (\<lambda>k. (Inr (ex_response None), 1000)))
     (ndo world0) ex_client ex_request = (Inr (ex_response None), 1000)"
  by (simp add: ex_env_def)

text \<open>
  Claim C1, as the code has it. The \<^verbatim>\<open>Result\<close> of \<open>readResponse\<close> never has both
  \<open>response\<close> and \<open>err\<close> empty. When \<^verbatim>\<open>client.Do\<close> fails (a timeout, a failed
  handshake, a refused connection), \<open>err\<close> is that error and \<open>response\<close> is \<^verbatim>\<open>nil\<close>.
  When \<^verbatim>\<open>client.Do\<close> returns a response, \<open>response\<close> is that response, \<open>body\<close> holds
  the bytes read, and \<open>err\<close> is the error of reading the body, if any. So both
  \<open>response\<close> and \<open>err\<close> are populated exactly when the headers arrived and reading the
  body then failed; in every other case exactly one of them is.
\<close>
theorem readResponse_populated:
  assumes "readResponse env options w client request = (es, w', request', result)"
  shows "(response result \<noteq> None \<or> err result \<noteq> None)
       \<and> (\<forall>e. fst (client_Do env (ndo w) client request') = Inl e \<longrightarrow>
              response result = None \<and> err result = Some e)
       \<and> (\<forall>resp. fst (client_Do env (ndo w) client request') = Inr resp \<longrightarrow>
              response result = Some resp \<and> err result = readerr (Body resp)
              \<and> body result = content (Body resp))
       \<and> ((response result \<noteq> None \<and> err result \<noteq> None) \<longleftrightarrow>
              (\<exists>resp e. fst (client_Do env (ndo w) client request') = Inr resp
                        \<and> readerr (Body resp) = Some e))"
  using assms
  by (auto simp: readResponse_def Let_def new_Result_def split: sum.splits if_splits)

theorem readResponse_populated_witness:
  "response (snd (snd (snd (readResponse
       (ex_env (Inr [ex_v4]) (Inl ''none'') (\<lambda>k. (Inr (ex_response None), 1000)))
       (flag_Parse ex_cmdline) world0 ex_client ex_request)))) = Some (ex_response None)
   \<and> err (snd (snd (snd (readResponse
       (ex_env (Inr [ex_v4]) (Inl ''none'') (\<lambda>k. (Inr (ex_response None), 1000)))
       (flag_Parse ex_cmdline) world0 ex_client ex_request)))) = None"
  using readResponse_populated [OF readResponse_ex_ok]
  by (simp add: readResponse_ex_ok)

text \<open>
  The claim as stated fails when the body cannot be read to its end: the response
  whose headers arrived and the read error are both in the \<^verbatim>\<open>Result\<close>.
\<close>
theorem readResponse_both_populated_counterexample:
  "response (snd (snd (snd (readResponse
       (ex_env (Inr [ex_v4]) (Inl ''none'')
          (\<lambda>k. (Inr (ex_response (Some ''unexpected EOF'')), 1000)))
       (flag_Parse ex_cmdline) world0 ex_client ex_request)))) \<noteq> None
   \<and> err (snd (snd (snd (readResponse
       (ex_env (Inr [ex_v4]) (Inl ''none'')
          (\<lambda>k. (Inr (ex_response (Some ''unexpected EOF'')), 1000)))
       (flag_Parse ex_cmdline) world0 ex_client ex_request)))) \<noteq> None"
  by (simp add: readResponse_ex_midread)

text \<open>
  Claim C2, as the code has it. When \<^verbatim>\<open>client.Do\<close> returns a response after \<open>d\<close>
  nanoseconds, \<open>readResponse\<close> calls \<^verbatim>\<open>client.Do\<close>, then reads the body, then closes
  it, and the reported \<open>responsetime\<close> is \<open>d\<close> plus the time the read of the body took:
  the interval starts just before the request is handed to the client and stops after
  the body has been read (to its end or to a failure).
\<close>
theorem readResponse_time:
  assumes "readResponse env options w client request = (es, w', request', result)"
      and "client_Do env (ndo w) client request' = (Inr resp, d)"
  shows "es = [ClientDo client request', ReadAll, BodyClose]
       \<and> responsetime result = int d + int (readtime (Body resp))
       \<and> clock w' = clock w + d + readtime (Body resp)"
  using assms
  by (auto simp: readResponse_def Let_def new_Result_def split: sum.splits if_splits)

theorem readResponse_time_witness:
  "responsetime (snd (snd (snd (readResponse
       (ex_env (Inr [ex_v4]) (Inl ''none'') (\<lambda>k. (Inr (ex_response None), 1000)))
       (flag_Parse ex_cmdline) world0 ex_client ex_request)))) = 1000 + 5000"
  using readResponse_time [OF readResponse_ex_ok client_Do_ex_ok]
  by (simp add: readResponse_ex_ok)

text \<open>
  The claim as stated fails on an exchange whose headers arrive after 1000 ns and whose
  body takes 5000 ns more: the reported time is 6000 ns, not 1000 ns.
\<close>
theorem responsetime_includes_body_counterexample:
  "snd (client_Do (ex_env (Inr [ex_v4]) (Inl ''none'') (\<lambda>k. (Inr (ex_response None), 1000)))
          (ndo world0) ex_client ex_request) = 1000
   \<and> responsetime (snd (snd (snd (readResponse
       (ex_env (Inr [ex_v4]) (Inl ''none'') (\<lambda>k. (Inr (ex_response None), 1000)))
       (flag_Parse ex_cmdline) world0 ex_client ex_request)))) = 6000"
  by (simp add: readResponse_ex_ok client_Do_ex_ok)

subsection \<open>The run of \<^verbatim>\<open>main\<close>\<close>

lemma main_after_flags:
  assumes "doFlags c = (es0, Inr (options, urlstring))"
      and "url2addressport env urlstring = Inr (hostname, port)"
      and "getIpList env options hostname = (es1, Inr iplist)"
      and "getRequest env options urlstring = Inr request"
  shows "main env c =
     (es0 @ es1 @ (if \<not> bodyonly options then prologue urlstring hostname port iplist else []) @
        (if queryall options then fst (queryAll env options world0 request port iplist)
         else Println [] # fst (querySingle env options world0 request '''')),
      (if queryall options then snd (snd (snd (queryAll env options world0 request port iplist)))
       else snd (snd (snd (querySingle env options world0 request '''')))))"
  using assms
  by (auto simp: main_def andThen_def split: prod.splits option.splits)

lemma main_request_fails:
  assumes "doFlags c = (es0, Inr (options, urlstring))"
      and "url2addressport env urlstring = Inr (hostname, port)"
      and "getIpList env options hostname = (es1, Inr iplist)"
      and "getRequest env options urlstring = Inl f"
  shows "main env c =
     (es0 @ es1 @ (if \<not> bodyonly options then prologue urlstring hostname port iplist else []),
      Some f)"
  using assms
  by (auto simp: main_def andThen_def split: prod.splits option.splits)

lemma doFlags_ok_events: "doFlags c = (es, Inr x) \<Longrightarrow> es = []"
  by (auto simp: doFlags_def Let_def split: sum.splits if_splits)

lemma doFlags_forces:
  assumes "doFlags c = (es, Inr (options, urlstring))"
  shows "((ipv4only options \<or> ipv6only options) \<longrightarrow> queryall options)
       \<and> (queryall options \<longrightarrow> noredirect options)"
  using assms
  by (auto simp: doFlags_def Let_def split: sum.splits if_splits)

lemma getIpList_events: "fst (getIpList env options hostname) = [LookupIP hostname]"
  by (simp add: getIpList_def split: sum.splits)

lemma url2addressport_ex:
  "url2addressport (ex_env l f x) u = Inr (''example.test'', ''443'')"
  by (simp add: url2addressport_def ex_env_def portMap_def)

lemma doFlags_ex_header:
  "doFlags (ex_cmdline\<lparr>fl_header := [''X-Debug'']\<rparr>) =
     ([], Inr (flag_Parse (ex_cmdline\<lparr>fl_header := [''X-Debug'']\<rparr>), ''https://example.test/''))"
  by (simp add: doFlags_def splitAuthbasic_def ex_cmdline_def flag_Parse_def index_def)

lemma doFlags_ex_queryall:
  "doFlags (ex_cmdline\<lparr>fl_queryall := True\<rparr>) =
     ([], Inr ((flag_Parse (ex_cmdline\<lparr>fl_queryall := True\<rparr>))\<lparr>noredirect := True\<rparr>,
               ''https://example.test/''))"
  by (simp add: doFlags_def splitAuthbasic_def ex_cmdline_def flag_Parse_def index_def)

lemma doFlags_ex_cacert:
  "doFlags (ex_cmdline\<lparr>fl_queryall := True, fl_cacert := ''missing.pem''\<rparr>) =
     ([], Inr ((flag_Parse (ex_cmdline\<lparr>fl_queryall := True, fl_cacert := ''missing.pem''\<rparr>))
                 \<lparr>noredirect := True\<rparr>,
               ''https://example.test/''))"
  by (simp add: doFlags_def splitAuthbasic_def ex_cmdline_def flag_Parse_def index_def)

lemma getRequest_ex:
  "headers options = [] \<Longrightarrow> useragent options = ''gohttp'' \<Longrightarrow>
   getRequest (ex_env l f x) options ''https://example.test/'' = Inr ex_request"
  by (simp add: getRequest_def ex_env_def request_Header_Add_def ex_request_def)

subsection \<open>Custom headers\<close>

lemma addHeaders_no_colon:
  assumes "h \<in> set hs" and "CHR '':'' \<notin> set h"
  shows "addHeaders env hs request = Inl (Panic (IndexOutOfRange 1 1))"
  using assms
proof (induction hs arbitrary: request)
  case Nil
  then show ?case by simp
next
  case (Cons a hs)
  show ?case
  proof (cases "CHR '':'' \<in> set a")
    case True
    with Cons.prems have "h \<in> set hs" by auto
    from Cons.IH [OF this Cons.prems(2)] True show ?thesis
      by (simp add: SplitN2_def index_def)
  next
    case False
    then show ?thesis by (simp add: SplitN2_def index_def)
  qed
qed

lemma doFlags_headers:
  "doFlags c = (es, Inr (options, urlstring)) \<Longrightarrow> headers options = fl_header c"
  by (auto simp: doFlags_def splitAuthbasic_def flag_Parse_def Let_def
        split: sum.splits if_splits)

lemma doFlags_no_attempt: "filter is_attempt (fst (doFlags c)) = []"
  by (auto simp: doFlags_def Let_def split: sum.splits if_splits)

lemma main_url_fails:
  assumes "doFlags c = (es0, Inr (options, urlstring))"
      and "url2addressport env urlstring = Inl e"
  shows "main env c = (es0, Some (LogFatal e))"
  using assms by (simp add: main_def andThen_def)

lemma main_lookup_fails:
  assumes "doFlags c = (es0, Inr (options, urlstring))"
      and "url2addressport env urlstring = Inr (hostname, port)"
      and "getIpList env options hostname = (es1, Inl f)"
  shows "main env c = (es0 @ es1, Some f)"
  using assms by (simp add: main_def andThen_def)

lemma prologue_no_attempt:
  "filter is_attempt (prologue urlstring hostname port iplist) = []"
  by (simp add: prologue_def filter_empty_conv)

lemma getRequest_no_colon:
  assumes "h \<in> set (headers options)" and "CHR '':'' \<notin> set h"
  shows "getRequest env options url =
           (case http_NewRequest env url of
              Some e \<Rightarrow> Inl (LogFatal e)
            | None \<Rightarrow> Inl (Panic (IndexOutOfRange 1 1)))"
  using addHeaders_no_colon [OF assms]
  by (simp add: getRequest_def split: option.splits)

lemma header_without_colon_never_sent:
  assumes "h \<in> set (fl_header c)" and "CHR '':'' \<notin> set h"
  shows "filter is_attempt (fst (main env c)) = [] \<and> snd (main env c) \<noteq> None"
proof (cases "snd (doFlags c)")
  case (Inl f)
  then have "doFlags c = (fst (doFlags c), Inl f)" by (metis prod.collapse)
  from main_doFlags_fails [OF this] show ?thesis
    by (simp add: doFlags_no_attempt)
next
  case (Inr x)
  obtain options urlstring where x: "x = (options, urlstring)" by (cases x)
  with Inr have d: "doFlags c = (fst (doFlags c), Inr (options, urlstring))"
    by (metis prod.collapse)
  have e0: "fst (doFlags c) = []" by (rule doFlags_ok_events [OF d])
  have hs: "h \<in> set (headers options)" using doFlags_headers [OF d] assms(1) by simp
  show ?thesis
  proof (cases "url2addressport env urlstring")
    case (Inl e)
    from main_url_fails [OF d Inl] show ?thesis by (simp add: e0)
  next
    case (Inr hp)
    obtain hostname port where hp: "hp = (hostname, port)" by (cases hp)
    with Inr have u: "url2addressport env urlstring = Inr (hostname, port)" by simp
    have ev: "fst (getIpList env options hostname) = [LookupIP hostname]"
      by (rule getIpList_events)
    show ?thesis
    proof (cases "snd (getIpList env options hostname)")
      case (Inl f)
      with ev have g: "getIpList env options hostname = ([LookupIP hostname], Inl f)"
        by (metis prod.collapse)
      from main_lookup_fails [OF d u g] show ?thesis by (simp add: e0)
    next
      case (Inr iplist)
      with ev have g: "getIpList env options hostname = ([LookupIP hostname], Inr iplist)"
        by (metis prod.collapse)
      from getRequest_no_colon [OF hs assms(2)]
      obtain f where r: "getRequest env options urlstring = Inl f"
        by (cases "http_NewRequest env urlstring") auto
      from main_request_fails [OF d u g r] show ?thesis
        by (simp add: e0 prologue_no_attempt)
    qed
  qed
qed

text \<open>
  Claim C4 on the code. A header argument without a colon is not checked anywhere:
  \<open>SplitN2\<close> gives a one-element slice and \<^verbatim>\<open>tmp[1]\<close> (line 97) is out of range.
  \<open>getRequest_no_colon\<close> above shows this for every header list with such an
  entry, and \<open>header_without_colon_never_sent\<close> that such a run ends in a failure
  without a request attempt. The run below is \<^verbatim>\<open>gohttp -header X-Debug https://example.test/\<close>: the
  hostname is resolved and the prologue is printed, and the process then ends by the
  run-time panic \<^verbatim>\<open>index out of range [1] with length 1\<close>, not by a rejection of the
  configuration. No request is sent.
\<close>
theorem header_without_colon_panics:
  "main (ex_env (Inr [ex_v4]) (Inl ''none'') (\<lambda>k. (Inr (ex_response None), 1000)))
        (ex_cmdline\<lparr>fl_header := [''X-Debug'']\<rparr>) =
     ([LookupIP ''example.test'',
       Printf ''URL: %s\<newline>Hostname: %s\<newline>Port: %s\<newline>''
         [GString ''https://example.test/'', GString ''example.test'', GString ''443''],
       Println [GString ''Addresses:''],
       Printf (CHR 0x09 # ''%s\<newline>'') [GIP ex_v4]],
      Some (Panic (IndexOutOfRange 1 1)))"
proof -
  let ?env = "ex_env (Inr [ex_v4]) (Inl ''none'') (\<lambda>k. (Inr (ex_response None), 1000))"
  let ?c = "ex_cmdline\<lparr>fl_header := [''X-Debug'']\<rparr>"
  have g: "getIpList ?env (flag_Parse ?c) ''example.test'' = ([LookupIP ''example.test''], Inr [ex_v4])"
    by (simp add: getIpList_def ex_env_def flag_Parse_def ex_cmdline_def)
  have r: "getRequest ?env (flag_Parse ?c) ''https://example.test/'' = Inl (Panic (IndexOutOfRange 1 1))"
    by (simp add: getRequest_def ex_env_def flag_Parse_def ex_cmdline_def SplitN2_def index_def)
  show ?thesis
    using main_request_fails [OF doFlags_ex_header url2addressport_ex g r]
    by (simp add: prologue_def flag_Parse_def ex_cmdline_def)
qed

subsection \<open>An empty address list\<close>

text \<open>
  Claim C3, as the code has it. When a family filter is set, the lookup of the hostname
  succeeds and no address of the list passes the filter, \<open>getIpList\<close> returns the empty
  list as an ordinary result, without an error. \<open>main\<close> then prints the prologue with
  no address (unless \<open>bodyonly\<close> is set), runs the loop over the empty list, so makes
  no request attempt, and returns: when the request can be built, the run ends
  normally and nothing reports that no address matched.
\<close>
theorem empty_filtered_list_is_silent:
  assumes flags: "doFlags c = (es0, Inr (options, urlstring))"
      and fam: "ipv4only options \<or> ipv6only options"
      and url: "url2addressport env urlstring = Inr (hostname, port)"
      and look: "net_LookupIP env hostname = Inr iplist"
      and empty: "filterLoop options iplist [] = []"
      and req: "getRequest env options urlstring = Inr request"
  shows "getIpList env options hostname = ([LookupIP hostname], Inr [])
       \<and> main env c =
           (LookupIP hostname
            # (if \<not> bodyonly options then prologue urlstring hostname port [] else []),
            None)"
proof -
  have g: "getIpList env options hostname = ([LookupIP hostname], Inr [])"
    using fam look empty by (auto simp: getIpList_def)
  have qa: "queryall options" using doFlags_forces [OF flags] fam by blast
  have e0: "es0 = []" by (rule doFlags_ok_events [OF flags])
  show ?thesis
    using main_after_flags [OF flags url g req] qa e0 g by simp
qed

theorem empty_filtered_list_is_silent_witness:
  "main (ex_env (Inr [ex_v6]) (Inl ''none'') (\<lambda>k. (Inr (ex_response None), 1000)))
        (ex_cmdline\<lparr>fl_4 := True\<rparr>) =
     (LookupIP ''example.test'' # prologue ''https://example.test/'' ''example.test'' ''443'' [],
      None)"
proof -
  let ?env = "ex_env (Inr [ex_v6]) (Inl ''none'') (\<lambda>k. (Inr (ex_response None), 1000))"
  let ?c = "ex_cmdline\<lparr>fl_4 := True\<rparr>"
  let ?options = "(flag_Parse ?c)\<lparr>queryall := True, noredirect := True\<rparr>"
  have fam: "ipv4only ?options \<or> ipv6only ?options" by (simp add: flag_Parse_def ex_cmdline_def)
  have look: "net_LookupIP ?env ''example.test'' = Inr [ex_v6]" by (simp add: ex_env_def)
  have empty: "filterLoop ?options [ex_v6] [] = []"
    by (simp add: To4_ex_v6 flag_Parse_def ex_cmdline_def)
  have r: "getRequest ?env ?options ''https://example.test/'' = Inr ex_request"
    by (rule getRequest_ex) (simp_all add: flag_Parse_def ex_cmdline_def defaultAgent_def)
  show ?thesis
    using empty_filtered_list_is_silent [OF doFlags_ex4 fam url2addressport_ex look empty r]
    by (simp add: flag_Parse_def ex_cmdline_def)
qed

text \<open>
  The claim as stated fails for \<^verbatim>\<open>gohttp -4 https://example.test/\<close> when the
  hostname resolves to one IPv6 address: the filtered list is empty, the run prints the
  prologue and returns, with no error and no attempt.
\<close>
theorem empty_filtered_list_counterexample:
  "snd (getIpList (ex_env (Inr [ex_v6]) (Inl ''none'') (\<lambda>k. (Inr (ex_response None), 1000)))
          ((flag_Parse (ex_cmdline\<lparr>fl_4 := True\<rparr>))\<lparr>queryall := True, noredirect := True\<rparr>)
          ''example.test'') = Inr []
   \<and> main (ex_env (Inr [ex_v6]) (Inl ''none'') (\<lambda>k. (Inr (ex_response None), 1000)))
        (ex_cmdline\<lparr>fl_4 := True\<rparr>) =
     ([LookupIP ''example.test'',
       Printf ''URL: %s\<newline>Hostname: %s\<newline>Port: %s\<newline>''
         [GString ''https://example.test/'', GString ''example.test'', GString ''443''],
       Println [GString ''Addresses:'']],
      None)"
proof -
  let ?env = "ex_env (Inr [ex_v6]) (Inl ''none'') (\<lambda>k. (Inr (ex_response None), 1000))"
  let ?c = "ex_cmdline\<lparr>fl_4 := True\<rparr>"
  let ?options = "(flag_Parse ?c)\<lparr>queryall := True, noredirect := True\<rparr>"
  have g: "getIpList ?env ?options ''example.test'' = ([LookupIP ''example.test''], Inr [])"
    by (simp add: getIpList_def ex_env_def To4_ex_v6 flag_Parse_def ex_cmdline_def)
  have r: "getRequest ?env ?options ''https://example.test/'' = Inr ex_request"
    by (rule getRequest_ex) (simp_all add: flag_Parse_def ex_cmdline_def defaultAgent_def)
  have o: "queryall ?options" "\<not> bodyonly ?options"
    by (simp_all add: flag_Parse_def ex_cmdline_def)
  show ?thesis
    using main_after_flags [OF doFlags_ex4 url2addressport_ex g r] o g
    by (simp add: prologue_def)
qed

subsection \<open>Probing every address\<close>

lemma header_Set_idem: "header_Set k v (header_Set k v h) = header_Set k v h"
  by (induction h) auto

lemma withAuth_idem: "withAuth env options (withAuth env options request) = withAuth env options request"
  by (simp add: withAuth_def SetBasicAuth_def header_Set_idem)

lemma getClient_built:
  assumes "getTLSConfig env options = (tes, Inr cfg)"
  shows "getClient env options address = (tes, Inr (builtClient options cfg address))"
  using assms by (simp add: getClient_def andThen_def builtClient_def Let_def)

lemma getClient_fatal:
  assumes "getTLSConfig env options = (tes, Inl f)"
  shows "getClient env options address = (tes, Inl f)"
  using assms by (simp add: getClient_def andThen_def)

lemma addressString_nonempty: "addressString env ipaddress port \<noteq> ''''"
  by (simp add: addressString_def)

lemma getTLSConfig_quiet:
  "e \<in> set (fst (getTLSConfig env options)) \<Longrightarrow> \<not> is_probe e \<and> reported e = []"
  by (auto simp: getTLSConfig_def andThen_def Let_def is_probe_def split: sum.splits if_splits)

lemma printCertDetails_quiet:
  "e \<in> set (printCertDetails visit cert) \<Longrightarrow> \<not> is_probe e \<and> reported e = []"
  by (auto simp: printCertDetails_def is_probe_def)

lemma printCertChainDetails_quiet:
  "e \<in> set (printCertChainDetails visits chain) \<Longrightarrow> \<not> is_probe e \<and> reported e = []"
  by (auto simp: printCertChainDetails_def is_probe_def dest: printCertDetails_quiet)

lemma printVerifiedChains_quiet:
  "e \<in> set (printVerifiedChains verifiedchains) \<Longrightarrow> \<not> is_probe e \<and> reported e = []"
  by (auto simp: printVerifiedChains_def is_probe_def)

lemma printStatus_quiet:
  "e \<in> set (printStatus resp) \<Longrightarrow> \<not> is_probe e \<and> reported e = []"
  by (auto simp: printStatus_def is_probe_def)

lemma printHeaders_quiet:
  "e \<in> set (printHeaders header) \<Longrightarrow> \<not> is_probe e \<and> reported e = []"
  by (auto simp: printHeaders_def is_probe_def)

lemma prologue_quiet:
  "e \<in> set (prologue urlstring hostname port iplist) \<Longrightarrow> \<not> is_probe e \<and> reported e = []"
  by (auto simp: prologue_def is_probe_def)

lemma printTLSinfo_quiet:
  "e \<in> set (fst (printTLSinfo visits options resp)) \<Longrightarrow> \<not> is_probe e \<and> reported e = []"
  by (auto simp: printTLSinfo_def andThen_def is_probe_def index_def
        split: option.splits if_splits
        dest: printCertDetails_quiet printCertChainDetails_quiet printVerifiedChains_quiet)

lemma printTLSinfo_returns:
  assumes "showcert options \<and> \<not> showcertchain options \<longrightarrow> has_peer resp"
  shows "snd (printTLSinfo visits options resp) = Inr ()"
  using assms
  by (auto simp: printTLSinfo_def andThen_def index_def has_peer_def split: option.splits)

lemma quiet_lists:
  assumes "\<And>e. e \<in> set es \<Longrightarrow> \<not> is_probe e \<and> reported e = []"
  shows "filter is_probe es = []" and "concat (map reported es) = []"
  using assms by (auto simp: filter_empty_conv)

lemma printResult_events:
  "set (fst (printResult visits options result))
     \<subseteq> {Printf ''## ResponseTime: %v\<newline>'' [GDuration (responsetime result)],
         Printf ''%s\<newline>'' [GBytes (body result)]}
       \<union> (case response result of
            None \<Rightarrow> {}
          | Some resp \<Rightarrow>
              set (fst (printTLSinfo visits options resp)) \<union> set (printStatus resp)
              \<union> set (printHeaders (Header resp)))"
  by (auto simp: printResult_def andThen_def
        split: option.splits if_splits prod.splits sum.splits)

lemma printResult_quiet:
  assumes "e \<in> set (fst (printResult visits options result))"
  shows "\<not> is_probe e \<and> reported e = []"
proof -
  from assms printResult_events [of visits options result]
  have "e \<in> {Printf ''## ResponseTime: %v\<newline>'' [GDuration (responsetime result)],
         Printf ''%s\<newline>'' [GBytes (body result)]}
       \<union> (case response result of
            None \<Rightarrow> {}
          | Some resp \<Rightarrow>
              set (fst (printTLSinfo visits options resp)) \<union> set (printStatus resp)
              \<union> set (printHeaders (Header resp)))"
    by (rule subsetD [rotated])
  then consider "e = Printf ''## ResponseTime: %v\<newline>'' [GDuration (responsetime result)]"
    | "e = Printf ''%s\<newline>'' [GBytes (body result)]"
    | resp where "e \<in> set (fst (printTLSinfo visits options resp))"
    | resp where "e \<in> set (printStatus resp)"
    | header where "e \<in> set (printHeaders header)"
    by (auto split: option.splits)
  then show ?thesis
  proof cases
    case 1
    then show ?thesis by (simp add: is_probe_def)
  next
    case 2
    then show ?thesis by (simp add: is_probe_def)
  next
    case 3
    then show ?thesis by (rule printTLSinfo_quiet)
  next
    case 4
    then show ?thesis by (rule printStatus_quiet)
  next
    case 5
    then show ?thesis by (rule printHeaders_quiet)
  qed
qed

lemma printResult_returns:
  assumes "response result = Some resp"
      and "showcert options \<and> \<not> showcertchain options \<longrightarrow> has_peer resp"
  shows "snd (printResult visits options result) = Inr ()"
  using assms printTLSinfo_returns [OF assms(2), of visits]
  by (auto simp: printResult_def andThen_def split: prod.splits sum.splits)

lemma readResponse_eq:
  "readResponse env options w client request =
     (let request1 = withAuth env options request;
          outcome = client_Do env (ndo w) client request1
      in (ClientDo client request1 # (case fst outcome of Inl e \<Rightarrow> [] | Inr resp \<Rightarrow> [ReadAll, BodyClose]),
          \<lparr> clock = clock w + snd outcome
                   + (case fst outcome of Inl e \<Rightarrow> 0 | Inr resp \<Rightarrow> readtime (Body resp)),
            ndo = ndo w + 1 \<rparr>,
          request1,
          (case fst outcome of
             Inl e \<Rightarrow> new_Result\<lparr>err := Some e\<rparr>
           | Inr resp \<Rightarrow>
               \<lparr> response = Some resp, body = content (Body resp),
                 responsetime = int (snd outcome) + int (readtime (Body resp)),
                 err = readerr (Body resp) \<rparr>)))"
  by (cases w) (simp add: readResponse_def withAuth_def Let_def new_Result_def split: sum.splits)

lemma inline_quiet: "\<not> is_inline e \<longleftrightarrow> \<not> is_probe e \<and> reported e = []"
  by (simp add: is_inline_def)

lemma attempt_is_probe: "is_attempt e \<Longrightarrow> is_probe e"
  by (simp add: is_probe_def)

lemma querySingle_trace:
  assumes tls: "getTLSConfig env options = (tes, Inr cfg)"
      and peer: "showcert options \<and> \<not> showcertchain options \<longrightarrow>
                   (\<forall>k c r resp d. client_Do env k c r = (Inr resp, d) \<longrightarrow> has_peer resp)"
  shows "\<exists>w'. querySingle env options w request address
                = (attemptTrace env options tes (builtClient options cfg address)
                     (withAuth env options request) (ndo w),
                   w', withAuth env options request, None)
           \<and> ndo w' = ndo w + 1"
proof -
  let ?client = "builtClient options cfg address"
  let ?request = "withAuth env options request"
  let ?outcome = "client_Do env (ndo w) ?client ?request"
  have gc: "getClient env options address = (tes, Inr ?client)"
    by (rule getClient_built [OF tls])
  show ?thesis
  proof (cases "fst ?outcome")
    case (Inl e)
    then show ?thesis
      by (simp add: querySingle_def gc readResponse_eq Let_def new_Result_def attemptTrace_def)
  next
    case (Inr resp)
    show ?thesis
    proof (cases "readerr (Body resp)")
      case (Some e)
      with Inr show ?thesis
        by (simp add: querySingle_def gc readResponse_eq Let_def attemptTrace_def)
    next
      case None
      let ?result = "\<lparr> response = Some resp, body = content (Body resp),
                        responsetime = int (snd ?outcome) + int (readtime (Body resp)),
                        err = None \<rparr>"
      from Inr have "client_Do env (ndo w) ?client ?request = (Inr resp, snd ?outcome)"
        by (metis prod.collapse)
      with peer have hp: "showcert options \<and> \<not> showcertchain options \<longrightarrow> has_peer resp"
        by blast
      have ret: "snd (printResult (range_KeyUsage env (ndo w)) options ?result) = Inr ()"
        by (rule printResult_returns [OF _ hp]) simp
      then obtain es2 where
        pr: "printResult (range_KeyUsage env (ndo w)) options ?result = (es2, Inr ())"
        by (metis prod.collapse)
      from Inr None pr show ?thesis
        by (simp add: querySingle_def gc readResponse_eq Let_def attemptTrace_def)
    qed
  qed
qed

lemma attemptTrace_views:
  assumes tq: "\<And>e. e \<in> set tes \<Longrightarrow> \<not> is_probe e \<and> reported e = []"
  shows "filter is_inline (attemptTrace env options tes client request k)
           = ClientDo client request
             # map (\<lambda>e. Println [GError e]) (attemptError (fst (client_Do env k client request)))"
    and "filter is_attempt (attemptTrace env options tes client request k)
           = [ClientDo client request]"
proof -
  have t1: "filter is_inline tes = []"
    using tq by (auto simp: filter_empty_conv is_inline_def)
  have t2: "filter is_attempt tes = []"
    using tq attempt_is_probe by (auto simp: filter_empty_conv)
  have p1: "\<And>result. filter is_inline (fst (printResult (range_KeyUsage env k) options result)) = []"
    using printResult_quiet by (auto simp: filter_empty_conv is_inline_def)
  have p2: "\<And>result. filter is_attempt (fst (printResult (range_KeyUsage env k) options result)) = []"
    by (auto simp: filter_empty_conv dest: printResult_quiet attempt_is_probe)
  show "filter is_inline (attemptTrace env options tes client request k)
           = ClientDo client request
             # map (\<lambda>e. Println [GError e]) (attemptError (fst (client_Do env k client request)))"
    using t1 p1
    by (simp add: attemptTrace_def attemptError_def is_inline_def is_probe_def
          split: sum.splits option.splits)
  show "filter is_attempt (attemptTrace env options tes client request k)
           = [ClientDo client request]"
    using t2 p2
    by (simp add: attemptTrace_def split: sum.splits option.splits)
qed

lemma queryAll_trace:
  assumes tls: "getTLSConfig env options = (tes, Inr cfg)"
      and peer: "showcert options \<and> \<not> showcertchain options \<longrightarrow>
                   (\<forall>k c r resp d. client_Do env k c r = (Inr resp, d) \<longrightarrow> has_peer resp)"
  shows "\<exists>w' request'. queryAll env options w request port iplist
             = (concat (map (\<lambda>(k, ip).
                               connectLine ip port
                               # attemptTrace env options tes
                                   (builtClient options cfg (addressString env ip port))
                                   (withAuth env options request) k)
                          (enumerate (ndo w) iplist)),
                w', request', None)
           \<and> ndo w' = ndo w + length iplist"
proof (induction iplist arbitrary: w request)
  case Nil
  show ?case by simp
next
  case (Cons ip rest)
  from querySingle_trace [OF tls peer, of w request "addressString env ip port"]
  obtain w1 where
    q: "querySingle env options w request (addressString env ip port)
          = (attemptTrace env options tes (builtClient options cfg (addressString env ip port))
               (withAuth env options request) (ndo w),
             w1, withAuth env options request, None)"
    and n1: "ndo w1 = ndo w + 1"
    by blast
  from Cons.IH [of w1 "withAuth env options request"]
  obtain w2 request2 where
    a: "queryAll env options w1 (withAuth env options request) port rest
          = (concat (map (\<lambda>(k, ip).
                            connectLine ip port
                            # attemptTrace env options tes
                                (builtClient options cfg (addressString env ip port))
                                (withAuth env options request) k)
                       (enumerate (ndo w1) rest)),
             w2, request2, None)"
    and n2: "ndo w2 = ndo w1 + length rest"
    by (auto simp: withAuth_idem)
  show ?case
    using q a n1 n2 by simp
qed

lemma loop_views:
  assumes tq: "\<And>e. e \<in> set tes \<Longrightarrow> \<not> is_probe e \<and> reported e = []"
  shows "filter is_inline
           (concat (map (\<lambda>(k, ip). connectLine ip port # attemptTrace env options tes (cl ip) r k)
                      (enumerate n iplist)))
         = concat (map (\<lambda>(k, ip).
                          [connectLine ip port, ClientDo (cl ip) r]
                          @ map (\<lambda>e. Println [GError e])
                              (attemptError (fst (client_Do env k (cl ip) r))))
                     (enumerate n iplist))"
    and "filter is_attempt
           (concat (map (\<lambda>(k, ip). connectLine ip port # attemptTrace env options tes (cl ip) r k)
                      (enumerate n iplist)))
         = map (\<lambda>ip. ClientDo (cl ip) r) iplist"
proof -
  have c: "is_inline (connectLine ip port)" "\<not> is_attempt (connectLine ip port)" for ip
    by (simp_all add: connectLine_def is_inline_def is_probe_def)
  show "filter is_inline
           (concat (map (\<lambda>(k, ip). connectLine ip port # attemptTrace env options tes (cl ip) r k)
                      (enumerate n iplist)))
         = concat (map (\<lambda>(k, ip).
                          [connectLine ip port, ClientDo (cl ip) r]
                          @ map (\<lambda>e. Println [GError e])
                              (attemptError (fst (client_Do env k (cl ip) r))))
                     (enumerate n iplist))"
    by (induction iplist arbitrary: n) (simp_all add: c attemptTrace_views(1) [OF tq])
  show "filter is_attempt
           (concat (map (\<lambda>(k, ip). connectLine ip port # attemptTrace env options tes (cl ip) r k)
                      (enumerate n iplist)))
         = map (\<lambda>ip. ClientDo (cl ip) r) iplist"
    by (induction iplist arbitrary: n) (simp_all add: c attemptTrace_views(2) [OF tq])
qed

text \<open>
  Claim C6, as the code has it. Let \<open>queryall\<close> be set, let resolution give the list
  \<open>iplist\<close>, let the request be built, let \<open>getTLSConfig\<close> return a configuration (the
  CA bundle and the client certificate load, when they are requested), and, when the
  leaf certificate alone is to be shown, let every TLS response carry a peer
  certificate. Then \<open>main\<close> returns, and after the lookup and the prologue its events
  are, for each address of \<open>iplist\<close> in order and for nothing else: the line announcing
  the address; the events of building the TLS configuration; one attempt, made on the
  client that a call of \<open>getClient\<close> for that address returns, which dials that fixed
  address; and then either the line \<^verbatim>\<open>fmt.Println(result.err)\<close> with the error of
  that attempt (of \<^verbatim>\<open>client.Do\<close>, or of reading the body), or the report of its
  result. So there are exactly as many attempts as addresses, in the order of \<open>iplist\<close>,
  and the error of a failed attempt is reported right after that attempt and before
  the line of the next address, which is attempted all the same.
\<close>
theorem queryall_probes_every_address:
  fixes client :: "IP \<Rightarrow> Client" and sent :: Request
  assumes flags: "doFlags c = (es0, Inr (options, urlstring))"
      and qa: "queryall options"
      and url: "url2addressport env urlstring = Inr (hostname, port)"
      and ips: "getIpList env options hostname = (es1, Inr iplist)"
      and req: "getRequest env options urlstring = Inr request"
      and tls: "getTLSConfig env options = (tes, Inr cfg)"
      and peer: "showcert options \<and> \<not> showcertchain options \<longrightarrow>
                   (\<forall>k c r resp d. client_Do env k c r = (Inr resp, d) \<longrightarrow> has_peer resp)"
      and client: "client = (\<lambda>ip. builtClient options cfg (addressString env ip port))"
      and sent: "sent = withAuth env options request"
  shows "snd (main env c) = None
       \<and> fst (main env c)
           = LookupIP hostname
             # (if \<not> bodyonly options then prologue urlstring hostname port iplist else [])
             @ concat (map (\<lambda>(k, ip).
                  Printf ''\<newline>CONNECT: %s %s ..\<newline>'' [GIP ip, GString port]
                  # tes
                  @ ClientDo (client ip) sent
                  # (case fst (client_Do env k (client ip) sent) of
                       Inl e \<Rightarrow> [Println [GError e]]
                     | Inr resp \<Rightarrow>
                         ReadAll # BodyClose
                         # (case readerr (Body resp) of
                              Some e \<Rightarrow> [Println [GError e]]
                            | None \<Rightarrow>
                                fst (printResult (range_KeyUsage env k) options
                                       \<lparr> response = Some resp, body = content (Body resp),
                                         responsetime =
                                           int (snd (client_Do env k (client ip) sent))
                                           + int (readtime (Body resp)),
                                         err = None \<rparr>))))
                (enumerate 0 iplist))
       \<and> filter is_attempt (fst (main env c)) = map (\<lambda>ip. ClientDo (client ip) sent) iplist
       \<and> filter is_inline (fst (main env c))
           = concat (map (\<lambda>(k, ip).
                  [Printf ''\<newline>CONNECT: %s %s ..\<newline>'' [GIP ip, GString port],
                   ClientDo (client ip) sent]
                  @ map (\<lambda>e. Println [GError e])
                      (attemptError (fst (client_Do env k (client ip) sent))))
                (enumerate 0 iplist))
       \<and> (\<forall>ip. getClient env options (addressString env ip port) = (tes, Inr (client ip))
              \<and> DialContext (client_Transport (client ip))
                  = Some (DialFixed (addressString env ip port) (timeout options)))"
proof -
  let ?loop = "concat (map (\<lambda>(k, ip). connectLine ip port # attemptTrace env options tes (client ip) sent k)
                         (enumerate 0 iplist))"
  from queryAll_trace [OF tls peer, of world0 request port iplist]
  obtain w' request' where
    a: "queryAll env options world0 request port iplist = (?loop, w', request', None)"
    by (auto simp: client sent world0_def)
  have e0: "es0 = []" by (rule doFlags_ok_events [OF flags])
  have e1: "es1 = [LookupIP hostname]"
    using getIpList_events [of env options hostname] ips by simp
  let ?pro = "if \<not> bodyonly options then prologue urlstring hostname port iplist else []"
  have tq: "\<And>e. e \<in> set tes \<Longrightarrow> \<not> is_probe e \<and> reported e = []"
    using getTLSConfig_quiet [of _ env options] tls by simp
  have pq: "filter is_inline ?pro = []" "filter is_attempt ?pro = []"
    using prologue_quiet [of _ urlstring hostname port iplist] attempt_is_probe
    by (auto simp: filter_empty_conv is_inline_def)
  have m: "main env c = (LookupIP hostname # ?pro @ ?loop, None)"
    using main_after_flags [OF flags url ips req] qa a e0 e1 by simp
  have t: "fst (main env c)
           = LookupIP hostname
             # ?pro
             @ concat (map (\<lambda>(k, ip).
                  Printf ''\<newline>CONNECT: %s %s ..\<newline>'' [GIP ip, GString port]
                  # tes
                  @ ClientDo (client ip) sent
                  # (case fst (client_Do env k (client ip) sent) of
                       Inl e \<Rightarrow> [Println [GError e]]
                     | Inr resp \<Rightarrow>
                         ReadAll # BodyClose
                         # (case readerr (Body resp) of
                              Some e \<Rightarrow> [Println [GError e]]
                            | None \<Rightarrow>
                                fst (printResult (range_KeyUsage env k) options
                                       \<lparr> response = Some resp, body = content (Body resp),
                                         responsetime =
                                           int (snd (client_Do env k (client ip) sent))
                                           + int (readtime (Body resp)),
                                         err = None \<rparr>))))
                (enumerate 0 iplist))"
    by (simp add: m connectLine_def attemptTrace_def)
  have at: "filter is_attempt (fst (main env c)) = map (\<lambda>ip. ClientDo (client ip) sent) iplist"
    using pq(2) by (simp add: m loop_views(2) [OF tq])
  have v: "filter is_inline (fst (main env c))
           = concat (map (\<lambda>(k, ip).
                  [Printf ''\<newline>CONNECT: %s %s ..\<newline>'' [GIP ip, GString port],
                   ClientDo (client ip) sent]
                  @ map (\<lambda>e. Println [GError e])
                      (attemptError (fst (client_Do env k (client ip) sent))))
                (enumerate 0 iplist))"
  proof -
    have "filter is_inline (fst (main env c))
           = concat (map (\<lambda>(k, ip).
                  [connectLine ip port, ClientDo (client ip) sent]
                  @ map (\<lambda>e. Println [GError e])
                      (attemptError (fst (client_Do env k (client ip) sent))))
                (enumerate 0 iplist))"
      using pq(1) by (simp add: m loop_views(1) [OF tq] is_inline_def is_probe_def)
    then show ?thesis by (simp add: connectLine_def)
  qed
  have cl: "\<forall>ip. getClient env options (addressString env ip port) = (tes, Inr (client ip))
              \<and> DialContext (client_Transport (client ip))
                  = Some (DialFixed (addressString env ip port) (timeout options))"
    by (simp add: client getClient_built [OF tls] builtClient_def addressString_nonempty)
  show ?thesis using m t at v cl by simp
qed


theorem queryall_probes_every_address_witness:
  "main (ex_env (Inr [ex_v4, ex_v6]) (Inl ''none'')
           (\<lambda>k. if k = 0 then (Inl ''tls: handshake failure'', 2000)
                 else (Inr (ex_response None), 1000)))
        (ex_cmdline\<lparr>fl_queryall := True\<rparr>) =
     ([LookupIP ''example.test'',
       Printf ''URL: %s\<newline>Hostname: %s\<newline>Port: %s\<newline>''
         [GString ''https://example.test/'', GString ''example.test'', GString ''443''],
       Println [GString ''Addresses:''],
       Printf (CHR 0x09 # ''%s\<newline>'') [GIP ex_v4],
       Printf (CHR 0x09 # ''%s\<newline>'') [GIP ex_v6],
       Printf ''\<newline>CONNECT: %s %s ..\<newline>'' [GIP ex_v4, GString ''443''],
       ClientDo
         \<lparr> client_Timeout = 5000000000,
           client_Transport =
             \<lparr> TLSClientConfig =
                 \<lparr> ServerName = '''', InsecureSkipVerify = False, RootCAs = None,
                   Certificates = [] \<rparr>,
               ForceAttemptHTTP2 = True,
               DialContext = Some (DialFixed ''192.0.2.1:443'' 5000000000) \<rparr>,
           CheckRedirect = True \<rparr>
         \<lparr> req_URL = ''https://example.test/'', req_Header = [(''User-Agent'', [''gohttp''])] \<rparr>,
       Println [GError ''tls: handshake failure''],
       Printf ''\<newline>CONNECT: %s %s ..\<newline>'' [GIP ex_v6, GString ''443''],
       ClientDo
         \<lparr> client_Timeout = 5000000000,
           client_Transport =
             \<lparr> TLSClientConfig =
                 \<lparr> ServerName = '''', InsecureSkipVerify = False, RootCAs = None,
                   Certificates = [] \<rparr>,
               ForceAttemptHTTP2 = True,
               DialContext = Some (DialFixed ''[2001:db8::1]:443'' 5000000000) \<rparr>,
           CheckRedirect = True \<rparr>
         \<lparr> req_URL = ''https://example.test/'', req_Header = [(''User-Agent'', [''gohttp''])] \<rparr>,
       ReadAll,
       BodyClose,
       Printf ''## ResponseTime: %v\<newline>'' [GDuration 6000],
       Println [GString ''## TLS Connection Info: NONE''],
       Println [GString ''## HTTP Status:''],
       Printf ''   HTTP Status: %d %s\<newline>'' [GInt 200, GStatusText 200],
       Printf ''   HTTP Protocol: %d %d %s\<newline>'' [GInt 1, GInt 1, GString ''HTTP/1.1''],
       Printf ''   HTTP ContentLength: %d\<newline>'' [GInt 2],
       Printf ''   HTTP Close: %v\<newline>'' [GBool False],
       Printf ''   HTTP Uncompressed: %v\<newline>'' [GBool False],
       Println [GString ''## HTTP Headers:''],
       Printf ''   %s: %s\<newline>'' [GString ''Content-Type'', GString ''text/plain''],
       Println [GString ''## End of HTTP Headers.'']],
      None)"
proof -
  let ?env = "ex_env (Inr [ex_v4, ex_v6]) (Inl ''none'')
               (\<lambda>k. if k = 0 then (Inl ''tls: handshake failure'', 2000)
                     else (Inr (ex_response None), 1000))"
  let ?c = "ex_cmdline\<lparr>fl_queryall := True\<rparr>"
  let ?options = "(flag_Parse ?c)\<lparr>noredirect := True\<rparr>"
  have qa: "queryall ?options" by (simp add: flag_Parse_def ex_cmdline_def)
  have g: "getIpList ?env ?options ''example.test''
             = ([LookupIP ''example.test''], Inr [ex_v4, ex_v6])"
    by (simp add: getIpList_def ex_env_def flag_Parse_def ex_cmdline_def)
  have r: "getRequest ?env ?options ''https://example.test/'' = Inr ex_request"
    by (rule getRequest_ex) (simp_all add: flag_Parse_def ex_cmdline_def defaultAgent_def)
  have t: "getTLSConfig ?env ?options = ([], Inr new_TLSConfig)"
    by (simp add: getTLSConfig_def andThen_def flag_Parse_def ex_cmdline_def)
  have p: "showcert ?options \<and> \<not> showcertchain ?options \<longrightarrow>
             (\<forall>k c r resp d. client_Do ?env k c r = (Inr resp, d) \<longrightarrow> has_peer resp)"
    by (simp add: flag_Parse_def ex_cmdline_def)
  note th = queryall_probes_every_address
              [OF doFlags_ex_queryall qa url2addressport_ex g r t p refl refl]
  from th have a: "snd (main ?env ?c) = None" by (rule conjunct1)
  have i4: "length ex_v4 = 4" and i6: "length ex_v6 \<noteq> 4"
    by (simp_all add: ex_v4_def ex_v6_def)
  from th have b: "fst (main ?env ?c)
      = [LookupIP ''example.test'',
       Printf ''URL: %s\<newline>Hostname: %s\<newline>Port: %s\<newline>''
         [GString ''https://example.test/'', GString ''example.test'', GString ''443''],
       Println [GString ''Addresses:''],
       Printf (CHR 0x09 # ''%s\<newline>'') [GIP ex_v4],
       Printf (CHR 0x09 # ''%s\<newline>'') [GIP ex_v6],
       Printf ''\<newline>CONNECT: %s %s ..\<newline>'' [GIP ex_v4, GString ''443''],
       ClientDo
         \<lparr> client_Timeout = 5000000000,
           client_Transport =
             \<lparr> TLSClientConfig =
                 \<lparr> ServerName = '''', InsecureSkipVerify = False, RootCAs = None,
                   Certificates = [] \<rparr>,
               ForceAttemptHTTP2 = True,
               DialContext = Some (DialFixed ''192.0.2.1:443'' 5000000000) \<rparr>,
           CheckRedirect = True \<rparr>
         \<lparr> req_URL = ''https://example.test/'', req_Header = [(''User-Agent'', [''gohttp''])] \<rparr>,
       Println [GError ''tls: handshake failure''],
       Printf ''\<newline>CONNECT: %s %s ..\<newline>'' [GIP ex_v6, GString ''443''],
       ClientDo
         \<lparr> client_Timeout = 5000000000,
           client_Transport =
             \<lparr> TLSClientConfig =
                 \<lparr> ServerName = '''', InsecureSkipVerify = False, RootCAs = None,
                   Certificates = [] \<rparr>,
               ForceAttemptHTTP2 = True,
               DialContext = Some (DialFixed ''[2001:db8::1]:443'' 5000000000) \<rparr>,
           CheckRedirect = True \<rparr>
         \<lparr> req_URL = ''https://example.test/'', req_Header = [(''User-Agent'', [''gohttp''])] \<rparr>,
       ReadAll,
       BodyClose,
       Printf ''## ResponseTime: %v\<newline>'' [GDuration 6000],
       Println [GString ''## TLS Connection Info: NONE''],
       Println [GString ''## HTTP Status:''],
       Printf ''   HTTP Status: %d %s\<newline>'' [GInt 200, GStatusText 200],
       Printf ''   HTTP Protocol: %d %d %s\<newline>'' [GInt 1, GInt 1, GString ''HTTP/1.1''],
       Printf ''   HTTP ContentLength: %d\<newline>'' [GInt 2],
       Printf ''   HTTP Close: %v\<newline>'' [GBool False],
       Printf ''   HTTP Uncompressed: %v\<newline>'' [GBool False],
       Println [GString ''## HTTP Headers:''],
       Printf ''   %s: %s\<newline>'' [GString ''Content-Type'', GString ''text/plain''],
       Println [GString ''## End of HTTP Headers.'']]"
    by (simp add: i4 i6 ex_env_def builtClient_def withAuth_def flag_Parse_def ex_cmdline_def
          prologue_def printResult_def printTLSinfo_def printStatus_def printHeaders_def
          ex_response_def ex_request_def new_TLSConfig_def addressString_def
          ContainsColon_def andThen_def defaultTimeout_def)
  show ?thesis using a b by (metis prod.collapse)
qed

text \<open>
  The claim as stated fails when the TLS configuration cannot be built. For
  \<^verbatim>\<open>gohttp -queryall -cacert missing.pem https://example.test/\<close> with two resolved
  addresses and an unreadable CA bundle, \<open>querySingle\<close> calls \<open>getClient\<close>, whose
  \<open>getTLSConfig\<close> ends the process with \<^verbatim>\<open>log.Fatal\<close> after the line of the first
  address: no request attempt is made, although two addresses were resolved.
\<close>
theorem queryall_aborted_by_fatal_counterexample:
  "snd (getIpList (ex_env (Inr [ex_v4, ex_v6]) (Inl ''open missing.pem: no such file or directory'')
                     (\<lambda>k. (Inr (ex_response None), 1000)))
          ((flag_Parse (ex_cmdline\<lparr>fl_queryall := True, fl_cacert := ''missing.pem''\<rparr>))
             \<lparr>noredirect := True\<rparr>) ''example.test'') = Inr [ex_v4, ex_v6]
   \<and> main (ex_env (Inr [ex_v4, ex_v6]) (Inl ''open missing.pem: no such file or directory'')
             (\<lambda>k. (Inr (ex_response None), 1000)))
          (ex_cmdline\<lparr>fl_queryall := True, fl_cacert := ''missing.pem''\<rparr>) =
       ([LookupIP ''example.test'',
         Printf ''URL: %s\<newline>Hostname: %s\<newline>Port: %s\<newline>''
           [GString ''https://example.test/'', GString ''example.test'', GString ''443''],
         Println [GString ''Addresses:''],
         Printf (CHR 0x09 # ''%s\<newline>'') [GIP ex_v4],
         Printf (CHR 0x09 # ''%s\<newline>'') [GIP ex_v6],
         Printf ''\<newline>CONNECT: %s %s ..\<newline>'' [GIP ex_v4, GString ''443''],
         ReadFile ''missing.pem''],
        Some (LogFatal ''open missing.pem: no such file or directory''))"
proof -
  let ?env = "ex_env (Inr [ex_v4, ex_v6]) (Inl ''open missing.pem: no such file or directory'')
                     (\<lambda>k. (Inr (ex_response None), 1000))"
  let ?c = "ex_cmdline\<lparr>fl_queryall := True, fl_cacert := ''missing.pem''\<rparr>"
  let ?options = "(flag_Parse ?c)\<lparr>noredirect := True\<rparr>"
  have g: "getIpList ?env ?options ''example.test''
             = ([LookupIP ''example.test''], Inr [ex_v4, ex_v6])"
    by (simp add: getIpList_def ex_env_def flag_Parse_def ex_cmdline_def)
  have r: "getRequest ?env ?options ''https://example.test/'' = Inr ex_request"
    by (rule getRequest_ex) (simp_all add: flag_Parse_def ex_cmdline_def defaultAgent_def)
  have t: "getTLSConfig ?env ?options
             = ([ReadFile ''missing.pem''],
                Inl (LogFatal ''open missing.pem: no such file or directory''))"
    by (simp add: getTLSConfig_def andThen_def flag_Parse_def ex_cmdline_def ex_env_def)
  have q: "queryAll ?env ?options world0 ex_request ''443'' [ex_v4, ex_v6]
             = ([connectLine ex_v4 ''443'', ReadFile ''missing.pem''], world0, ex_request,
                Some (LogFatal ''open missing.pem: no such file or directory''))"
    by (simp add: querySingle_def getClient_fatal [OF t])
  have o: "queryall ?options" "\<not> bodyonly ?options"
    by (simp_all add: flag_Parse_def ex_cmdline_def)
  show ?thesis
    using main_after_flags [OF doFlags_ex_cacert url2addressport_ex g r] q o g
    by (simp add: prologue_def connectLine_def)
qed

end
